theory Spec2Isabelle
  imports Complex_Main "HOL-Library.AList"
begin

section \<open>Python values, exceptions and sequencing\<close>

text \<open>
  The training script \<^verbatim>\<open>train.py\<close> is glue around an external numeric library.
  The embedding keeps the script's control flow, its local variables and the identity of
  the parameter tensors concrete, and takes every numeric kernel and every operating-system
  service it calls as a field of an environment record.

  A value stored by \<^verbatim>\<open>argparse\<close> is an \<^verbatim>\<open>int\<close> or a \<^verbatim>\<open>float\<close> (the declared defaults)
  or a \<^verbatim>\<open>str\<close> (anything read from the command line, since no \<^verbatim>\<open>type=\<close> is declared).
  Floats are idealised as reals throughout.
\<close>

datatype pyval = PyInt int | PyFloat real | PyStr string

datatype py_error =
    SystemExit int
  | UnboundLocalError string
  | ValueError string
  | ZeroDivisionError
  | LibraryError string

text \<open>An exception ends the run; \<open>Inl\<close> carries it through the rest of a sequence.\<close>

definition and_then :: "'e + 'a \<Rightarrow> ('a \<Rightarrow> 'e + 'b) \<Rightarrow> 'e + 'b" where
  "and_then m f = (case m of Inl e \<Rightarrow> Inl e | Inr x \<Rightarrow> f x)"

fun try_fold :: "('a \<Rightarrow> 's \<Rightarrow> 'e + 's) \<Rightarrow> 'a list \<Rightarrow> 's \<Rightarrow> 'e + 's" where
  "try_fold f [] s = Inr s"
| "try_fold f (x # xs) s = and_then (f x s) (try_fold f xs)"

subsection \<open>The built-in \<^verbatim>\<open>int()\<close>\<close>

text \<open>
  A Python \<^verbatim>\<open>str\<close> is a \<open>string\<close> here, one character per code point, so the strings of
  the model are those whose code points are all below 256.

  \<^verbatim>\<open>int(s)\<close> on such a string skips surrounding white space, reads an optional sign and
  then decimal digits, where single underscores may separate digits; anything else raises
  \<^verbatim>\<open>ValueError\<close>. The white space it skips is U+0009 to U+000D, U+0020, U+0085 and U+00A0;
  the separators U+001C to U+001F are not skipped, although \<^verbatim>\<open>str.isspace\<close> holds of them.
  Below 256 the only decimal digits are the ASCII ones. More than 4300 digits are refused
  (the interpreter's default limit on integer strings).
\<close>

definition py_isspace :: "char \<Rightarrow> bool" where
  "py_isspace c = (c \<in> set [CHR 0x09, CHR 0x0A, CHR 0x0B, CHR 0x0C, CHR 0x0D, CHR '' '',
                             CHR 0x85, CHR 0xA0])"

definition int_max_str_digits :: nat where
  "int_max_str_digits = 4300"

definition py_isdigit :: "char \<Rightarrow> bool" where
  "py_isdigit c = (c \<in> set ''0123456789'')"

definition py_strip :: "string \<Rightarrow> string" where
  "py_strip s = rev (dropWhile py_isspace (rev (dropWhile py_isspace s)))"

fun digits_ok :: "string \<Rightarrow> bool" where
  "digits_ok [] = False"
| "digits_ok [c] = py_isdigit c"
| "digits_ok (c # d # r) =
     (py_isdigit c \<and> (if d = CHR ''_'' then r \<noteq> [] \<and> digits_ok r else digits_ok (d # r)))"

definition digits_value :: "string \<Rightarrow> int" where
  "digits_value s =
     foldl (\<lambda>acc c. 10 * acc + (of_char c - 48)) 0 (filter (\<lambda>c. c \<noteq> CHR ''_'') s)"

definition py_int_str :: "string \<Rightarrow> py_error + int" where
  "py_int_str s =
     (let t = py_strip s;
          (sgn, body) = (case t of
                           [] \<Rightarrow> (1, [])
                         | c # r \<Rightarrow> if c = CHR ''-'' then (- 1, r)
                                    else if c = CHR ''+'' then (1, r) else (1, t))
      in if digits_ok body \<and> length (filter py_isdigit body) \<le> int_max_str_digits
         then Inr (sgn * digits_value body)
         else Inl (ValueError s))"

definition py_int :: "pyval \<Rightarrow> py_error + int" where
  "py_int v = (case v of
       PyInt n \<Rightarrow> Inr n
     | PyFloat x \<Rightarrow> Inr (if 0 \<le> x then \<lfloor>x\<rfloor> else \<lceil>x\<rceil>)
     | PyStr s \<Rightarrow> py_int_str s)"

section \<open>Configuration intake: \<^verbatim>\<open>get_arguments\<close>\<close>

text \<open>
  The tokenising of \<^verbatim>\<open>sys.argv\<close> is \<^verbatim>\<open>argparse\<close>'s own business. A command line is given
  here by what \<^verbatim>\<open>argparse\<close> found on it: for each declared option the raw string that
  followed it (if the option occurred), whether \<^verbatim>\<open>--gpu\<close> occurred, and the positional
  argument (if any). A missing positional is a usage error, exit status 2.
\<close>

record cmdline =
  c_save_dir :: "string option"
  c_model :: "string option"
  c_learning_rate :: "string option"
  c_hidden_units :: "string option"
  c_epochs :: "string option"
  c_gpu :: bool
  c_data_path :: "string option"

record args =
  save_dir :: string
  model :: string
  lr :: pyval
  hidden_units :: pyval
  epochs :: pyval
  cuda :: bool
  data_path :: string

definition store :: "pyval \<Rightarrow> string option \<Rightarrow> pyval" where
  "store dflt given = (case given of None \<Rightarrow> dflt | Some s \<Rightarrow> PyStr s)"

definition get_arguments :: "cmdline \<Rightarrow> py_error + args" where
  "get_arguments c =
     (case c_data_path c of
        None \<Rightarrow> Inl (SystemExit 2)
      | Some p \<Rightarrow> Inr \<lparr>
          save_dir = (case c_save_dir c of None \<Rightarrow> ''.'' | Some s \<Rightarrow> s),
          model = (case c_model c of None \<Rightarrow> ''densenet121'' | Some s \<Rightarrow> s),
          lr = store (PyFloat (1 / 1000)) (c_learning_rate c),
          hidden_units = store (PyInt 512) (c_hidden_units c),
          epochs = store (PyInt 5) (c_epochs c),
          cuda = c_gpu c,
          data_path = p \<rparr>)"

section \<open>Tensors, parameters and modules\<close>

text \<open>
  A tensor is its list of entries. Parameters live in a store (a list addressed by
  position), so that the model, the classifier head and the optimizer can refer to the
  same parameter, as the Python objects do.
\<close>

type_synonym tensor = "real list"
type_synonym addr = nat

record param =
  p_data :: tensor
  p_grad :: "tensor option"
  requires_grad :: bool

datatype layer =
    Linear nat nat addr addr
  | ReLU
  | Dropout real
  | LogSoftmax nat

datatype classifier_module =
    Stock "(string \<times> addr) list"
  | Sequential "(string \<times> layer) list"

record module =
  m_arch :: string
  m_features :: "(string \<times> addr) list"
  classifier :: classifier_module
  m_buffers :: "(string \<times> tensor) list"
  training :: bool
  on_cuda :: bool

fun layer_parameters :: "string \<times> layer \<Rightarrow> (string \<times> addr) list" where
  "layer_parameters (k, Linear i j w b) = [(k @ ''.weight'', w), (k @ ''.bias'', b)]"
| "layer_parameters (k, ReLU) = []"
| "layer_parameters (k, Dropout p) = []"
| "layer_parameters (k, LogSoftmax d) = []"

fun classifier_named_parameters :: "classifier_module \<Rightarrow> (string \<times> addr) list" where
  "classifier_named_parameters (Stock ps) = ps"
| "classifier_named_parameters (Sequential ls) = concat (map layer_parameters ls)"

definition classifier_parameters :: "classifier_module \<Rightarrow> addr list" where
  "classifier_parameters c = map snd (classifier_named_parameters c)"

definition feature_parameters :: "module \<Rightarrow> addr list" where
  "feature_parameters m = map snd (m_features m)"

definition named_parameters :: "module \<Rightarrow> (string \<times> addr) list" where
  "named_parameters m =
     m_features m @
     map (\<lambda>(k, a). (''classifier.'' @ k, a)) (classifier_named_parameters (classifier m))"

definition parameters :: "module \<Rightarrow> addr list" where
  "parameters m = map snd (named_parameters m)"

definition new_params :: "param list \<Rightarrow> tensor list \<Rightarrow> param list \<times> addr list" where
  "new_params h ts =
     (h @ map (\<lambda>t. \<lparr>p_data = t, p_grad = None, requires_grad = True\<rparr>) ts,
      [length h ..< length h + length ts])"

definition freeze :: "addr list \<Rightarrow> param list \<Rightarrow> param list" where
  "freeze as h = fold (\<lambda>a h. h[a := (h ! a)\<lparr>requires_grad := False\<rparr>]) as h"

section \<open>Datasets and loaders: \<^verbatim>\<open>data_parser\<close>\<close>

datatype transform =
    Resize nat
  | CenterCrop nat
  | ToTensor
  | Normalize "real list" "real list"
  | RandomRotation nat
  | RandomResizedCrop nat
  | RandomHorizontalFlip

type_synonym compose = "transform list"

record image_folder =
  samples :: "(string \<times> nat) list"
  class_to_idx :: "(string \<times> nat) list"
  transform_of :: compose

record data_loader =
  dataset :: image_folder
  batch_size :: nat
  shuffle_on :: bool

function chunks :: "nat \<Rightarrow> 'a list \<Rightarrow> 'a list list" where
  "chunks n xs = (if n = 0 \<or> xs = [] then [] else take n xs # chunks n (drop n xs))"
  by pat_completeness auto
termination
  by (relation "measure (\<lambda>(n, xs). length xs)") auto

declare chunks.simps [simp del]

section \<open>Optimizer, checkpoint and the environment\<close>

record adam_state =
  st_step :: nat
  exp_avg :: tensor
  exp_avg_sq :: tensor

record optimizer =
  param_group :: "addr list"
  opt_lr :: pyval
  opt_state :: "(addr \<times> adam_state) list"

record pretrained =
  pt_features :: "(string \<times> tensor) list"
  pt_classifier :: "(string \<times> tensor) list"
  pt_buffers :: "(string \<times> tensor) list"

record checkpoint =
  ck_input_size :: nat
  ck_output_size :: nat
  ck_epochs :: pyval
  ck_learning_rate :: pyval
  ck_batch_size :: nat
  ck_data_transforms :: "compose list"
  ck_model :: "module \<times> param list"
  ck_classifier :: "classifier_module \<times> param list"
  ck_optimizer :: optimizer
  ck_state_dict :: "(string \<times> tensor) list"
  ck_class_to_idx :: "(string \<times> nat) list"

text \<open>
  Everything the script delegates: the file system (\<^verbatim>\<open>os\<close>, \<^verbatim>\<open>torch.save\<close>,
  \<^verbatim>\<open>ImageFolder\<close>), image decoding and augmentation, the sampler's shuffle, the pretrained
  weights, the initialiser of \<^verbatim>\<open>nn.Linear\<close>, CUDA availability, the forward pass, the
  gradients of the loss, and Adam's argument check and update rule. The theorems below
  hold for every environment.
\<close>

record ('fs, 'x) env =
  os_path_exists :: "'fs \<Rightarrow> string \<Rightarrow> bool"
  os_makedirs :: "'fs \<Rightarrow> string \<Rightarrow> py_error + 'fs"
  torch_save :: "'fs \<Rightarrow> checkpoint \<Rightarrow> string \<Rightarrow> py_error + 'fs"
  scan_folder :: "'fs \<Rightarrow> string \<Rightarrow> py_error + (string \<times> nat) list \<times> (string \<times> nat) list"
  load_image :: "compose \<Rightarrow> nat \<Rightarrow> string \<Rightarrow> 'x"
  shuffle :: "nat \<Rightarrow> (string \<times> nat) list \<Rightarrow> (string \<times> nat) list"
  models_pretrained :: "string \<Rightarrow> py_error + pretrained"
  linear_init :: "nat \<Rightarrow> nat \<Rightarrow> tensor \<times> tensor"
  cuda_available :: bool
  net_forward :: "module \<Rightarrow> tensor list \<Rightarrow> 'x list \<Rightarrow> py_error + real list list \<times> (string \<times> tensor) list"
  net_grad :: "module \<Rightarrow> tensor list \<Rightarrow> 'x list \<Rightarrow> nat list \<Rightarrow> nat \<Rightarrow> tensor"
  adam_check :: "pyval \<Rightarrow> py_error option"
  adam_update :: "pyval \<Rightarrow> adam_state option \<Rightarrow> tensor \<Rightarrow> tensor \<Rightarrow> py_error + tensor \<times> adam_state"


section \<open>Dataset assembly and batching\<close>

definition eval_transforms :: compose where
  "eval_transforms =
     [Resize 256, CenterCrop 224, ToTensor,
      Normalize [485 / 1000, 456 / 1000, 406 / 1000] [229 / 1000, 224 / 1000, 225 / 1000]]"

definition train_transforms :: compose where
  "train_transforms =
     [RandomRotation 30, RandomResizedCrop 224, RandomHorizontalFlip, ToTensor,
      Normalize [485 / 1000, 456 / 1000, 406 / 1000] [229 / 1000, 224 / 1000, 225 / 1000]]"

definition ImageFolder ::
  "('fs, 'x) env \<Rightarrow> 'fs \<Rightarrow> string \<Rightarrow> compose \<Rightarrow> py_error + image_folder" where
  "ImageFolder E fs dir tf =
     and_then (scan_folder E fs dir)
       (\<lambda>(ss, cti). Inr \<lparr>samples = ss, class_to_idx = cti, transform_of = tf\<rparr>)"

text \<open>
  The three lists of length three that \<^verbatim>\<open>data_parser\<close> returns are triples here:
  position 0 is training, 1 is validation, 2 is testing.
\<close>

definition data_parser ::
  "('fs, 'x) env \<Rightarrow> 'fs \<Rightarrow> string \<Rightarrow>
     py_error + (data_loader \<times> data_loader \<times> data_loader) \<times>
                (image_folder \<times> image_folder \<times> image_folder) \<times> compose list" where
  "data_parser E fs path =
     (let train_dir = path @ ''/train'';
          valid_dir = path @ ''/valid'';
          test_dir = path @ ''/test'';
          bs = 64;
          data_transforms = [eval_transforms, train_transforms]
      in and_then (ImageFolder E fs train_dir train_transforms) (\<lambda>d0.
         and_then (ImageFolder E fs valid_dir eval_transforms) (\<lambda>d1.
         and_then (ImageFolder E fs test_dir eval_transforms) (\<lambda>d2.
           Inr ((\<lparr>dataset = d0, batch_size = bs, shuffle_on = True\<rparr>,
                 \<lparr>dataset = d1, batch_size = bs, shuffle_on = False\<rparr>,
                 \<lparr>dataset = d2, batch_size = bs, shuffle_on = False\<rparr>),
                (d0, d1, d2), data_transforms)))))"

text \<open>
  One iteration over a loader: the samples (shuffled by the sampler's draw number \<open>k\<close> when
  shuffling is on) cut into consecutive batches, each a pair of the decoded images and
  their labels. \<open>loader_len\<close> is \<^verbatim>\<open>len(loader)\<close>.
\<close>

definition batches ::
  "('fs, 'x) env \<Rightarrow> data_loader \<Rightarrow> nat \<Rightarrow> ('x list \<times> nat list) list" where
  "batches E dl k =
     (let ds = dataset dl;
          order = (if shuffle_on dl then shuffle E k (samples ds) else samples ds)
      in map (\<lambda>ch. (map (\<lambda>(p, y). load_image E (transform_of ds) k p) ch, map snd ch))
             (chunks (batch_size dl) order))"

definition loader_len :: "data_loader \<Rightarrow> nat" where
  "loader_len dl = (length (samples (dataset dl)) + batch_size dl - 1) div batch_size dl"

section \<open>Model assembly\<close>

definition load_pretrained ::
  "('fs, 'x) env \<Rightarrow> string \<Rightarrow> param list \<Rightarrow> py_error + param list \<times> module" where
  "load_pretrained E arch h =
     and_then (models_pretrained E arch) (\<lambda>pt.
       let (h1, fa) = new_params h (map snd (pt_features pt));
           (h2, ca) = new_params h1 (map snd (pt_classifier pt))
       in Inr (h2, \<lparr>m_arch = arch,
                    m_features = zip (map fst (pt_features pt)) fa,
                    classifier = Stock (zip (map fst (pt_classifier pt)) ca),
                    m_buffers = pt_buffers pt,
                    training = True,
                    on_cuda = False\<rparr>))"

definition nn_Linear ::
  "('fs, 'x) env \<Rightarrow> nat \<Rightarrow> nat \<Rightarrow> param list \<Rightarrow> param list \<times> layer" where
  "nn_Linear E i j h =
     (let (w, b) = linear_init E i j
      in (fst (new_params h [w, b]), Linear i j (length h) (Suc (length h))))"

text \<open>
  Lines 28 to 64 of \<^verbatim>\<open>main\<close>: the two supported names bind \<^verbatim>\<open>input_layers\<close>,
  \<^verbatim>\<open>output_size\<close>, \<^verbatim>\<open>model\<close> and \<^verbatim>\<open>classifier\<close>; any other name binds nothing
  (\<open>None\<close>), and nothing is raised here.
\<close>

record model_locals =
  input_layers :: nat
  output_size :: nat
  loc_model :: module
  loc_classifier :: classifier_module

definition select_model ::
  "('fs, 'x) env \<Rightarrow> string \<Rightarrow> param list \<Rightarrow> py_error + param list \<times> model_locals option" where
  "select_model E name h =
     (if name = ''densenet121'' then
        and_then (load_pretrained E ''densenet121'' h) (\<lambda>(h1, m).
          let h2 = freeze (parameters m) h1;
              (h3, l1) = nn_Linear E 1024 550 h2;
              (h4, l2) = nn_Linear E 550 200 h3;
              (h5, l3) = nn_Linear E 200 102 h4
          in Inr (h5, Some \<lparr>input_layers = 1024, output_size = 102, loc_model = m,
                loc_classifier = Sequential
                  [(''input'', l1), (''relu1'', ReLU), (''dropout1'', Dropout (1 / 2)),
                   (''linear2'', l2), (''relu2'', ReLU), (''linear3'', l3),
                   (''output'', LogSoftmax 1)]\<rparr>))
      else if name = ''vgg19'' then
        and_then (load_pretrained E ''vgg19'' h) (\<lambda>(h1, m).
          let h2 = freeze (parameters m) h1;
              (h3, l1) = nn_Linear E 25088 5000 h2;
              (h4, l2) = nn_Linear E 5000 500 h3;
              (h5, l3) = nn_Linear E 500 102 h4
          in Inr (h5, Some \<lparr>input_layers = 25088, output_size = 102, loc_model = m,
                loc_classifier = Sequential
                  [(''input'', l1), (''relu1'', ReLU), (''dropout1'', Dropout (1 / 2)),
                   (''linear2'', l2), (''relu2'', ReLU), (''linear3'', l3),
                   (''output'', LogSoftmax 1)]\<rparr>))
      else Inr (h, None))"

definition module_cuda :: "('fs, 'x) env \<Rightarrow> module \<Rightarrow> py_error + module" where
  "module_cuda E m =
     (if cuda_available E then Inr (m\<lparr>on_cuda := True\<rparr>) else Inl (LibraryError ''cuda''))"

definition module_cpu :: "module \<Rightarrow> module" where
  "module_cpu m = m\<lparr>on_cuda := False\<rparr>"

definition to_cuda :: "('fs, 'x) env \<Rightarrow> bool \<Rightarrow> py_error + unit" where
  "to_cuda E use_cuda =
     (if use_cuda \<and> \<not> cuda_available E then Inl (LibraryError ''cuda'') else Inr ())"

section \<open>Optimizer and autograd\<close>

definition optim_Adam ::
  "('fs, 'x) env \<Rightarrow> addr list \<Rightarrow> pyval \<Rightarrow> py_error + optimizer" where
  "optim_Adam E ps l =
     (case adam_check E l of
        Some e \<Rightarrow> Inl e
      | None \<Rightarrow> Inr \<lparr>param_group = ps, opt_lr = l, opt_state = []\<rparr>)"

text \<open>\<^verbatim>\<open>optimizer.zero_grad()\<close> zeroes the gradient of each of the optimizer's own parameters that has one.\<close>

definition zero_grad_param :: "addr \<Rightarrow> param list \<Rightarrow> param list" where
  "zero_grad_param a h =
     (case p_grad (h ! a) of
        None \<Rightarrow> h
      | Some g \<Rightarrow> h[a := (h ! a)\<lparr>p_grad := Some (map (\<lambda>_. 0) g)\<rparr>])"

definition zero_grad :: "optimizer \<Rightarrow> param list \<Rightarrow> param list" where
  "zero_grad opt h = fold zero_grad_param (param_group opt) h"

text \<open>
  \<^verbatim>\<open>optimizer.step()\<close> visits the optimizer's own parameters, skips those without a
  gradient, and replaces the data of the others by what the update rule returns.
\<close>

definition step_param ::
  "('fs, 'x) env \<Rightarrow> addr \<Rightarrow> param list \<times> optimizer \<Rightarrow> py_error + param list \<times> optimizer" where
  "step_param E a ho =
     (case ho of (h, opt) \<Rightarrow>
        (case p_grad (h ! a) of
           None \<Rightarrow> Inr (h, opt)
         | Some g \<Rightarrow>
             and_then (adam_update E (opt_lr opt) (map_of (opt_state opt) a) (p_data (h ! a)) g)
               (\<lambda>(w, st). Inr (h[a := (h ! a)\<lparr>p_data := w\<rparr>],
                                opt\<lparr>opt_state := AList.update a st (opt_state opt)\<rparr>))))"

definition optimizer_step ::
  "('fs, 'x) env \<Rightarrow> optimizer \<Rightarrow> param list \<Rightarrow> py_error + param list \<times> optimizer" where
  "optimizer_step E opt h = try_fold (step_param E) (param_group opt) (h, opt)"

text \<open>
  \<^verbatim>\<open>loss.backward()\<close> adds a gradient to every parameter of the model that requires one
  (position \<open>i\<close> in \<^verbatim>\<open>model.parameters()\<close>), and raises when no parameter requires one.
\<close>

definition accumulate :: "tensor option \<Rightarrow> tensor \<Rightarrow> tensor" where
  "accumulate g d = (case g of None \<Rightarrow> d | Some g0 \<Rightarrow> map2 (+) g0 d)"

definition backward_param :: "(nat \<Rightarrow> tensor) \<Rightarrow> nat \<times> addr \<Rightarrow> param list \<Rightarrow> param list" where
  "backward_param gr ia h =
     (case ia of (i, a) \<Rightarrow>
        if requires_grad (h ! a)
        then h[a := (h ! a)\<lparr>p_grad := Some (accumulate (p_grad (h ! a)) (gr i))\<rparr>]
        else h)"

definition backward ::
  "('fs, 'x) env \<Rightarrow> module \<Rightarrow> 'x list \<Rightarrow> nat list \<Rightarrow> param list \<Rightarrow> py_error + param list" where
  "backward E m xs ys h =
     (let ps = parameters m;
          ws = map (\<lambda>a. p_data (h ! a)) ps
      in if \<not> list_ex (\<lambda>a. requires_grad (h ! a)) ps
         then Inl (LibraryError ''does not require grad'')
         else Inr (fold (backward_param (net_grad E m ws xs ys)) (enumerate 0 ps) h))"

text \<open>
  \<^verbatim>\<open>nn.NLLLoss()\<close>: the mean over the batch of minus the log-probability of the label.
  Batch sizes must agree and every label must index its row. (A loader never yields an
  empty batch, so the mean is over at least one sample.)
\<close>

definition NLLLoss :: "real list list \<Rightarrow> nat list \<Rightarrow> py_error + real" where
  "NLLLoss out ys =
     (if length out \<noteq> length ys then Inl (ValueError ''batch size'')
      else if list_ex (\<lambda>(row, y). length row \<le> y) (zip out ys)
      then Inl (LibraryError ''target out of bounds'')
      else Inr (sum_list (map (\<lambda>(row, y). - (row ! y)) (zip out ys)) / real (length ys)))"


section \<open>The training loop: \<^verbatim>\<open>train_model\<close>\<close>

text \<open>
  The state of a run of \<^verbatim>\<open>train_model\<close>: the parameter store, the model and the optimizer
  (mutated in place by the Python), the locals \<^verbatim>\<open>steps\<close> and \<^verbatim>\<open>running_loss\<close>, and the
  trace of the library calls and prints made so far, in order. A status line is kept as
  the numbers it formats; the elapsed time is not modelled. \<^verbatim>\<open>loss.data[0]\<close> reads the
  scalar loss, as it does in the PyTorch release the script was written for.
\<close>

record stats =
  shown_epoch :: nat
  shown_epochs :: int
  shown_training_loss :: real
  shown_validation_loss :: real
  shown_accuracy :: real

datatype event =
    ZeroGrad
  | Forward
  | Criterion real
  | Backward
  | OptimStep
  | ModelEval
  | ModelTrain
  | PrintStats stats
  | PrintElapsed

record tstate =
  heap :: "param list"
  net :: module
  optim :: optimizer
  steps :: nat
  running_loss :: real
  trace :: "event list"

definition print_every :: nat where
  "print_every = 10"

definition emit :: "event list \<Rightarrow> tstate \<Rightarrow> tstate" where
  "emit evs s = s\<lparr>trace := trace s @ evs\<rparr>"

definition forward ::
  "('fs, 'x) env \<Rightarrow> 'x list \<Rightarrow> tstate \<Rightarrow> py_error + real list list \<times> tstate" where
  "forward E xs s =
     and_then (net_forward E (net s) (map (\<lambda>a. p_data (heap s ! a)) (parameters (net s))) xs)
       (\<lambda>(out, bufs). Inr (out, emit [Forward] (s\<lparr>net := (net s)\<lparr>m_buffers := bufs\<rparr>\<rparr>)))"

text \<open>Lines 153 to 165: one training batch, up to the update of \<^verbatim>\<open>running_loss\<close>.\<close>

definition train_step ::
  "('fs, 'x) env \<Rightarrow> bool \<Rightarrow> 'x list \<times> nat list \<Rightarrow> tstate \<Rightarrow> py_error + tstate" where
  "train_step E use_cuda b s =
     (case b of (inputs, labels) \<Rightarrow>
        let s1 = s\<lparr>steps := steps s + 1\<rparr> in
        and_then (to_cuda E use_cuda) (\<lambda>_.
          let s2 = emit [ZeroGrad] (s1\<lparr>heap := zero_grad (optim s1) (heap s1)\<rparr>) in
          and_then (forward E inputs s2) (\<lambda>(outputs, s3).
          and_then (NLLLoss outputs labels) (\<lambda>loss.
            let s4 = emit [Criterion loss] s3 in
            and_then (backward E (net s2) inputs labels (heap s4)) (\<lambda>h5.
              let s5 = emit [Backward] (s4\<lparr>heap := h5\<rparr>) in
              and_then (optimizer_step E (optim s5) (heap s5)) (\<lambda>(h6, opt6).
                let s6 = emit [OptimStep] (s5\<lparr>heap := h6, optim := opt6\<rparr>) in
                Inr (s6\<lparr>running_loss := running_loss s6 + loss\<rparr>)))))))"

text \<open>
  Lines 182 to 186: the class predicted for a row is the position of its largest
  exponentiated entry (the first one, on a tie); a batch contributes the mean of the
  label-equals-prediction indicator.
\<close>

fun argmax_aux :: "nat \<Rightarrow> real \<Rightarrow> nat \<Rightarrow> real list \<Rightarrow> nat" where
  "argmax_aux best bv i [] = best"
| "argmax_aux best bv i (v # vs) =
     (if bv < v then argmax_aux i v (Suc i) vs else argmax_aux best bv (Suc i) vs)"

definition argmax :: "real list \<Rightarrow> nat" where
  "argmax xs = (case xs of [] \<Rightarrow> 0 | x # r \<Rightarrow> argmax_aux 0 x 1 r)"

definition predictions :: "real list list \<Rightarrow> nat list" where
  "predictions output = map argmax (map (map exp) output)"

definition mean_bool :: "bool list \<Rightarrow> real" where
  "mean_bool bs = real (length (filter (\<lambda>b. b) bs)) / real (length bs)"

definition batch_accuracy :: "real list list \<Rightarrow> nat list \<Rightarrow> real" where
  "batch_accuracy output labels = mean_bool (map2 (=) labels (predictions output))"

definition validate_batch ::
  "('fs, 'x) env \<Rightarrow> bool \<Rightarrow> 'x list \<times> nat list \<Rightarrow> tstate \<times> real \<times> real \<Rightarrow>
     py_error + tstate \<times> real \<times> real" where
  "validate_batch E use_cuda b sav =
     (case (b, sav) of ((images, labels), (s, accuracy, validation_loss)) \<Rightarrow>
        and_then (to_cuda E use_cuda) (\<lambda>_.
        and_then (forward E images s) (\<lambda>(output, s1).
        and_then (NLLLoss output labels) (\<lambda>v.
          Inr (emit [Criterion v] s1,
               accuracy + batch_accuracy output labels,
               validation_loss + v)))))"

text \<open>
  Lines 167 to 195, entered when \<^verbatim>\<open>steps % print_every == 0\<close>. Dividing by the length of
  an empty validation loader raises \<^verbatim>\<open>ZeroDivisionError\<close>.
\<close>

definition validation ::
  "('fs, 'x) env \<Rightarrow> data_loader \<Rightarrow> bool \<Rightarrow> nat \<Rightarrow> int \<Rightarrow> tstate \<Rightarrow> py_error + tstate" where
  "validation E valid_loader use_cuda e n s =
     (let s1 = emit [ModelEval] (s\<lparr>net := (net s)\<lparr>training := False\<rparr>\<rparr>) in
      and_then (try_fold (validate_batch E use_cuda) (batches E valid_loader (steps s)) (s1, 0, 0))
        (\<lambda>(s2, accuracy, validation_loss).
           if loader_len valid_loader = 0 then Inl ZeroDivisionError
           else
             let line = \<lparr>shown_epoch = e + 1, shown_epochs = n,
                         shown_training_loss = running_loss s2 / real print_every,
                         shown_validation_loss = validation_loss / real (loader_len valid_loader),
                         shown_accuracy = accuracy / real (loader_len valid_loader)\<rparr>;
                 s3 = emit [PrintStats line] s2;
                 s4 = s3\<lparr>running_loss := 0\<rparr>
             in Inr (emit [ModelTrain] (s4\<lparr>net := (net s4)\<lparr>training := True\<rparr>\<rparr>))))"

definition train_batch ::
  "('fs, 'x) env \<Rightarrow> data_loader \<times> data_loader \<times> data_loader \<Rightarrow> bool \<Rightarrow> nat \<Rightarrow> int \<Rightarrow>
     'x list \<times> nat list \<Rightarrow> tstate \<Rightarrow> py_error + tstate" where
  "train_batch E dataloaders use_cuda e n b s =
     and_then (train_step E use_cuda b s) (\<lambda>s1.
       if steps s1 mod print_every = 0
       then validation E (fst (snd dataloaders)) use_cuda e n s1
       else Inr s1)"

definition train_epoch ::
  "('fs, 'x) env \<Rightarrow> data_loader \<times> data_loader \<times> data_loader \<Rightarrow> bool \<Rightarrow> int \<Rightarrow>
     nat \<Rightarrow> tstate \<Rightarrow> py_error + tstate" where
  "train_epoch E dataloaders use_cuda n e s =
     try_fold (train_batch E dataloaders use_cuda e n) (batches E (fst dataloaders) e)
       (s\<lparr>running_loss := 0\<rparr>)"

definition train_model ::
  "('fs, 'x) env \<Rightarrow> data_loader \<times> data_loader \<times> data_loader \<Rightarrow> int \<Rightarrow> bool \<Rightarrow>
     tstate \<Rightarrow> py_error + tstate" where
  "train_model E dataloaders n use_cuda s =
     (let s0 = s\<lparr>steps := 0\<rparr> in
      and_then (if use_cuda then module_cuda E (net s0) else Inr (module_cpu (net s0))) (\<lambda>m.
      and_then (try_fold (train_epoch E dataloaders use_cuda n) [0 ..< nat n] (s0\<lparr>net := m\<rparr>))
        (\<lambda>s1. Inr (emit [PrintElapsed] s1))))"

section \<open>The script: \<^verbatim>\<open>main\<close>\<close>

text \<open>\<^verbatim>\<open>os.path.join\<close> on POSIX, for two components.\<close>

definition os_path_join :: "string \<Rightarrow> string \<Rightarrow> string" where
  "os_path_join a b =
     (if b \<noteq> [] \<and> hd b = CHR ''/'' then b
      else if a = [] \<or> last a = CHR ''/'' then a @ b
      else a @ ''/'' @ b)"

definition state_dict :: "module \<Rightarrow> param list \<Rightarrow> (string \<times> tensor) list" where
  "state_dict m h = map (\<lambda>(k, a). (k, p_data (h ! a))) (named_parameters m) @ m_buffers m"

text \<open>
  What \<^verbatim>\<open>main\<close> leaves behind when it returns: the file system, the value of its local
  \<^verbatim>\<open>save_dir\<close> (rebound at line 32 to the joined path), the dictionary handed to
  \<^verbatim>\<open>torch.save\<close>, and the final training state.
\<close>

record 'fs outcome =
  out_fs :: 'fs
  out_save_dir :: string
  out_checkpoint :: checkpoint
  out_state :: tstate

definition make_checkpoint ::
  "args \<Rightarrow> model_locals \<Rightarrow> compose list \<Rightarrow> image_folder \<Rightarrow> tstate \<Rightarrow> checkpoint" where
  "make_checkpoint a l data_transforms train_set s =
     \<lparr>ck_input_size = input_layers l,
      ck_output_size = output_size l,
      ck_epochs = epochs a,
      ck_learning_rate = lr a,
      ck_batch_size = 64,
      ck_data_transforms = data_transforms,
      ck_model = (net s, map (\<lambda>a. heap s ! a) (parameters (net s))),
      ck_classifier = (classifier (net s),
                       map (\<lambda>a. heap s ! a) (classifier_parameters (classifier (net s)))),
      ck_optimizer = optim s,
      ck_state_dict = state_dict (net s) (heap s),
      ck_class_to_idx = class_to_idx train_set\<rparr>"

text \<open>
  The body of \<^verbatim>\<open>main\<close> after the arguments are parsed. At line 66 the right-hand side
  \<^verbatim>\<open>classifier\<close> is evaluated first, so with nothing bound the run stops there with
  \<^verbatim>\<open>UnboundLocalError\<close>. At line 75 \<^verbatim>\<open>int(args.epochs)\<close> is evaluated before the call.
\<close>

definition main_body :: "('fs, 'x) env \<Rightarrow> 'fs \<Rightarrow> args \<Rightarrow> py_error + 'fs outcome" where
  "main_body E fs a =
     and_then (if os_path_exists E fs (save_dir a) then Inr fs
               else os_makedirs E fs (save_dir a)) (\<lambda>fs1.
       let save_path = os_path_join (save_dir a) ''checkpoint.pth'' in
       and_then (select_model E (model a) []) (\<lambda>(h, bound).
         case bound of
           None \<Rightarrow> Inl (UnboundLocalError ''classifier'')
         | Some l \<Rightarrow>
             let m = (loc_model l)\<lparr>classifier := loc_classifier l\<rparr> in
             and_then (data_parser E fs1 (data_path a))
               (\<lambda>(data_loaders, image_datasets, data_transforms).
             and_then (if cuda a then module_cuda E m else Inr m) (\<lambda>m1.
             and_then (optim_Adam E (classifier_parameters (classifier m1)) (lr a)) (\<lambda>opt.
             and_then (py_int (epochs a)) (\<lambda>n.
             and_then (train_model E data_loaders n (cuda a)
                         \<lparr>heap = h, net = m1, optim = opt, steps = 0, running_loss = 0,
                          trace = []\<rparr>) (\<lambda>s.
               let ck = make_checkpoint a l data_transforms (fst image_datasets) s in
               and_then (torch_save E fs1 ck ''checkpoint.pth'') (\<lambda>fs2.
                 Inr \<lparr>out_fs = fs2, out_save_dir = save_path, out_checkpoint = ck,
                      out_state = s\<rparr>))))))))"

definition main :: "('fs, 'x) env \<Rightarrow> 'fs \<Rightarrow> cmdline \<Rightarrow> py_error + 'fs outcome" where
  "main E fs c = and_then (get_arguments c) (main_body E fs)"

section \<open>Schedules, audits and frame conditions\<close>

text \<open>
  The events of a validation pass itself: forward passes and loss evaluations, nothing
  that touches a parameter or prints.
\<close>

definition is_quiet :: "event \<Rightarrow> bool" where
  "is_quiet ev = (case ev of Forward \<Rightarrow> True | Criterion v \<Rightarrow> True | _ \<Rightarrow> False)"

text \<open>What a validation pass leaves alone.\<close>

definition validation_frame :: "tstate \<Rightarrow> tstate \<Rightarrow> bool" where
  "validation_frame s s' \<longleftrightarrow>
     heap s' = heap s \<and> optim s' = optim s \<and> steps s' = steps s
   \<and> running_loss s' = running_loss s
   \<and> parameters (net s') = parameters (net s)
   \<and> training (net s') = training (net s)
   \<and> (\<exists>evs. trace s' = trace s @ evs \<and> list_all is_quiet evs)"

text \<open>
  The evaluation schedule. Of a trace, keep the optimizer steps and the switches to
  evaluation mode. \<open>schedule j k\<close> is what steps \<open>j + 1\<close> to \<open>k\<close> of a run must then
  look like when a validation pass follows every step whose number is a multiple of 10,
  and no other.
\<close>

definition is_sched :: "event \<Rightarrow> bool" where
  "is_sched ev = (ev = OptimStep \<or> ev = ModelEval)"

definition step_events :: "nat \<Rightarrow> event list" where
  "step_events k = OptimStep # (if k mod 10 = 0 then [ModelEval] else [])"

definition schedule :: "nat \<Rightarrow> nat \<Rightarrow> event list" where
  "schedule j k = concat (map step_events [Suc j ..< Suc k])"

text \<open>
  Replaying a trace against the printed training loss: the accumulator adds each loss
  evaluated in training mode, ignores those of a validation pass, and at each status line
  demands that the printed value be the accumulator over 10, then starts again from 0.
  \<open>None\<close> means a status line did not match.
\<close>

fun audit_step :: "event \<Rightarrow> (real \<times> bool) option \<Rightarrow> (real \<times> bool) option" where
  "audit_step ev None = None"
| "audit_step (Criterion v) (Some (acc, evaluating)) =
     Some (if evaluating then acc else acc + v, evaluating)"
| "audit_step ModelEval (Some (acc, evaluating)) = Some (acc, True)"
| "audit_step ModelTrain (Some (acc, evaluating)) = Some (acc, False)"
| "audit_step (PrintStats line) (Some (acc, evaluating)) =
     (if shown_training_loss line = acc / 10 then Some (0, evaluating) else None)"
| "audit_step ev (Some st) = Some st"

text \<open>
  Frame conditions of the training loop for a set \<open>B\<close> of parameter addresses: the
  parameters in \<open>B\<close> do not require a gradient and are not among the optimizer's, and then
  they, the optimizer's parameter list and learning rate, and the model's structure are
  the same before and after.
\<close>

definition frozen_kept :: "nat set \<Rightarrow> tstate \<Rightarrow> tstate \<Rightarrow> bool" where
  "frozen_kept B s s' \<longleftrightarrow>
     param_group (optim s') = param_group (optim s)
   \<and> opt_lr (optim s') = opt_lr (optim s)
   \<and> parameters (net s') = parameters (net s)
   \<and> classifier (net s') = classifier (net s)
   \<and> (\<forall>b\<in>B. heap s' ! b = heap s ! b)"

definition frozen_in :: "nat set \<Rightarrow> tstate \<Rightarrow> bool" where
  "frozen_in B s \<longleftrightarrow>
     (\<forall>b\<in>B. \<not> requires_grad (heap s ! b)) \<and> B \<inter> set (param_group (optim s)) = {}"

text \<open>
  The metric in the words of the specification: a batch's score is the fraction of its
  samples whose label is the arg-max of the exponentiated output row; the reported
  accuracy is the sum of the batch scores over the number of batches.
\<close>

definition spec_batch_mean :: "real list list \<Rightarrow> nat list \<Rightarrow> real" where
  "spec_batch_mean outp labels =
     sum_list (map (\<lambda>(row, y). if y = argmax (map exp row) then 1 else 0) (zip outp labels))
       / real (length labels)"

definition per_batch_accuracy :: "(real list list \<times> nat list) list \<Rightarrow> real" where
  "per_batch_accuracy obs =
     sum_list (map (\<lambda>(outp, labels). spec_batch_mean outp labels) obs) / real (length obs)"

definition per_sample_accuracy :: "(real list list \<times> nat list) list \<Rightarrow> real" where
  "per_sample_accuracy obs =
     sum_list (map (\<lambda>(outp, labels).
        sum_list (map (\<lambda>(row, y). if y = argmax (map exp row) then 1 else 0) (zip outp labels)))
        obs)
       / real (sum_list (map (\<lambda>(outp, labels). length labels) obs))"

text \<open>The outputs a validation pass sees, batch by batch, paired with the labels.\<close>

fun observed ::
  "('fs, 'x) env \<Rightarrow> bool \<Rightarrow> ('x list \<times> nat list) list \<Rightarrow> tstate \<times> real \<times> real \<Rightarrow>
     (real list list \<times> nat list) list" where
  "observed E c [] sav = []"
| "observed E c (b # bs) sav =
     (case forward E (fst b) (fst sav) of
        Inl err \<Rightarrow> []
      | Inr (outp, s1) \<Rightarrow>
          (outp, snd b) #
          (case validate_batch E c b sav of
             Inl err \<Rightarrow> []
           | Inr sav' \<Rightarrow> observed E c bs sav'))"

definition validation_start :: "tstate \<Rightarrow> tstate \<times> real \<times> real" where
  "validation_start s = (emit [ModelEval] (s\<lparr>net := (net s)\<lparr>training := False\<rparr>\<rparr>), 0, 0)"

section \<open>A small concrete environment\<close>

text \<open>
  An executable environment on which the definitions can be run: the file system is a
  list of directories and an association list of files, an image is a number, the data
  live under \<^verbatim>\<open>flowers\<close> (two training pictures of two classes, one validation picture,
  one test picture of a third class), the optimizer's constructor accepts any learning
  rate, and the update rule is plain gradient descent, which needs a numeric one.
\<close>

definition sample_env :: "(string list \<times> (string \<times> checkpoint) list, nat) env" where
  "sample_env = \<lparr>
     os_path_exists = (\<lambda>fs p. p \<in> set (fst fs) \<or> p \<in> set (map fst (snd fs))),
     os_makedirs = (\<lambda>fs p. if p = [] then Inl (LibraryError ''FileNotFoundError'')
                            else Inr (p # fst fs, snd fs)),
     torch_save = (\<lambda>fs ck p. if p \<in> set (fst fs) then Inl (LibraryError ''IsADirectoryError'')
                              else Inr (fst fs, AList.update p ck (snd fs))),
     scan_folder = (\<lambda>fs p.
        if p = ''flowers/train''
        then Inr ([(''a.jpg'', 0), (''b.jpg'', 1)], [(''A'', 0), (''B'', 1)])
        else if p = ''flowers/valid''
        then Inr ([(''v.jpg'', 0)], [(''A'', 0)])
        else if p = ''flowers/test''
        then Inr ([(''t.jpg'', 2)], [(''A'', 0), (''B'', 1), (''C'', 2)])
        else Inl (LibraryError ''FileNotFoundError'')),
     load_image = (\<lambda>tf k p. length p + k),
     shuffle = (\<lambda>k xs. rev xs),
     models_pretrained = (\<lambda>arch. Inr \<lparr>pt_features = [(''features.conv0.weight'', [1])],
                                        pt_classifier = [(''classifier.weight'', [2]),
                                                         (''classifier.bias'', [3])],
                                        pt_buffers = []\<rparr>),
     linear_init = (\<lambda>i j. ([real i], [real j])),
     cuda_available = False,
     net_forward = (\<lambda>m ws xs. Inr (map (\<lambda>x. [0, - 1]) xs, m_buffers m)),
     net_grad = (\<lambda>m ws xs ys i. [1]),
     adam_check = (\<lambda>l. None),
     adam_update = (\<lambda>l st w g. case l of
                      PyFloat r \<Rightarrow> Inr (map2 (\<lambda>x y. x - r * y) w g,
                                        \<lparr>st_step = 1, exp_avg = g, exp_avg_sq = g\<rparr>)
                    | _ \<Rightarrow> Inl (LibraryError ''TypeError''))\<rparr>"

definition sample_cmdline :: cmdline where
  "sample_cmdline = \<lparr>c_save_dir = Some ''out'', c_model = None, c_learning_rate = None,
     c_hidden_units = None, c_epochs = Some ''0'', c_gpu = False, c_data_path = Some ''flowers''\<rparr>"

text \<open>
  A training state over three parameters (one frozen, two of a one-layer head) and
  loaders with small batches: five training batches of one sample, and validation
  batches of two samples and one.
\<close>

definition sample_state :: tstate where
  "sample_state = \<lparr>
     heap = [\<lparr>p_data = [1], p_grad = None, requires_grad = False\<rparr>,
             \<lparr>p_data = [2], p_grad = None, requires_grad = True\<rparr>,
             \<lparr>p_data = [3], p_grad = None, requires_grad = True\<rparr>],
     net = \<lparr>m_arch = ''densenet121'', m_features = [(''features.conv0.weight'', 0)],
            classifier = Sequential [(''input'', Linear 1 1 1 2)], m_buffers = [],
            training = True, on_cuda = False\<rparr>,
     optim = \<lparr>param_group = [1, 2], opt_lr = PyFloat (1 / 10), opt_state = []\<rparr>,
     steps = 0, running_loss = 0, trace = []\<rparr>"

definition sample_loaders :: "data_loader \<times> data_loader \<times> data_loader" where
  "sample_loaders =
     (\<lparr>dataset = \<lparr>samples = [(''a'', 1), (''b'', 1), (''c'', 1), (''d'', 1), (''e'', 1)],
                   class_to_idx = [(''A'', 0), (''B'', 1)], transform_of = train_transforms\<rparr>,
       batch_size = 1, shuffle_on = True\<rparr>,
      \<lparr>dataset = \<lparr>samples = [(''x'', 0), (''y'', 0), (''z'', 1)],
                   class_to_idx = [(''A'', 0), (''B'', 1)], transform_of = eval_transforms\<rparr>,
       batch_size = 2, shuffle_on = False\<rparr>,
      \<lparr>dataset = \<lparr>samples = [(''x'', 0), (''y'', 0), (''z'', 1)],
                   class_to_idx = [(''A'', 0), (''B'', 1)], transform_of = eval_transforms\<rparr>,
       batch_size = 2, shuffle_on = False\<rparr>)"

text \<open>The namespace parsed from \<open>sample_cmdline\<close>, and a state in the middle of a run.\<close>

definition sample_args :: args where
  "sample_args = \<lparr>save_dir = ''out'', model = ''densenet121'', lr = PyFloat (1 / 1000),
     hidden_units = PyInt 512, epochs = PyStr ''0'', cuda = False, data_path = ''flowers''\<rparr>"

definition sample_mid_state :: tstate where
  "sample_mid_state = sample_state\<lparr>steps := 5, running_loss := 7\<rparr>"

section \<open>Basic facts\<close>

lemma and_then_Inl [simp]: "and_then (Inl e) f = Inl e"
  by (simp add: and_then_def)

lemma and_then_Inr [simp]: "and_then (Inr x) f = f x"
  by (simp add: and_then_def)

lemma and_then_eq_Inr: "and_then m f = Inr y \<longleftrightarrow> (\<exists>x. m = Inr x \<and> f x = Inr y)"
  by (cases m) simp_all

lemma main_body_Inr:
  assumes "main_body E fs a = Inr r"
  shows "\<exists>fs1 h l dls ids dts m1 opt n s.
           (if os_path_exists E fs (save_dir a) then Inr fs else os_makedirs E fs (save_dir a)) = Inr fs1
         \<and> select_model E (model a) [] = Inr (h, Some l)
         \<and> data_parser E fs1 (data_path a) = Inr (dls, ids, dts)
         \<and> (if cuda a then module_cuda E ((loc_model l)\<lparr>classifier := loc_classifier l\<rparr>)
             else Inr ((loc_model l)\<lparr>classifier := loc_classifier l\<rparr>)) = Inr m1
         \<and> optim_Adam E (classifier_parameters (classifier m1)) (lr a) = Inr opt
         \<and> py_int (epochs a) = Inr n
         \<and> train_model E dls n (cuda a)
              \<lparr>heap = h, net = m1, optim = opt, steps = 0, running_loss = 0, trace = []\<rparr> = Inr s
         \<and> torch_save E fs1 (make_checkpoint a l dts (fst ids) s) ''checkpoint.pth'' = Inr (out_fs r)
         \<and> out_save_dir r = os_path_join (save_dir a) ''checkpoint.pth''
         \<and> out_checkpoint r = make_checkpoint a l dts (fst ids) s
         \<and> out_state r = s"
  using assms
  by (simp add: main_body_def Let_def and_then_eq_Inr split: option.splits prod.splits) fastforce


lemma py_int_str_0: "py_int (PyStr ''0'') = Inr 0"
  by (simp add: py_int_def py_int_str_def py_strip_def py_isspace_def digits_value_def
        py_isdigit_def int_max_str_digits_def)

lemmas sample_run_defs =
  main_def get_arguments_def sample_cmdline_def store_def main_body_def sample_env_def
  select_model_def load_pretrained_def new_params_def nn_Linear_def freeze_def parameters_def
  named_parameters_def data_parser_def ImageFolder_def optim_Adam_def classifier_parameters_def
  train_model_def module_cpu_def emit_def Let_def

lemma sample_run_returns: "\<exists>r. main sample_env ([], []) sample_cmdline = Inr r"
  by (simp add: sample_run_defs py_int_str_0)

lemma os_path_join_differs:
  "d \<noteq> [] \<Longrightarrow> os_path_join d ''checkpoint.pth'' \<noteq> ''checkpoint.pth''"
  by (auto simp: os_path_join_def dest: arg_cong [where f = length])

section \<open>Where the checkpoint is written\<close>

text \<open>
  Claim C1. Whenever the script returns, the one and only write went to the literal file
  name \<^verbatim>\<open>checkpoint.pth\<close> (relative to the working directory), whatever \<^verbatim>\<open>--save_dir\<close>
  was: the file system left behind is the result of \<^verbatim>\<open>torch.save\<close> on that name, applied
  to the file system in which the save directory was created if it did not exist. The
  joined path \<^verbatim>\<open>save_dir/checkpoint.pth\<close> is computed into the local \<^verbatim>\<open>save_dir\<close>, is a
  different string from the write target (for a non-empty directory name), and is never
  passed to anything.
\<close>

theorem checkpoint_written_to_fixed_filename:
  assumes "main E fs c = Inr r"
  shows "\<exists>a fs1. get_arguments c = Inr a
           \<and> (if os_path_exists E fs (save_dir a) then fs1 = fs
              else os_makedirs E fs (save_dir a) = Inr fs1)
           \<and> out_save_dir r = os_path_join (save_dir a) ''checkpoint.pth''
           \<and> (save_dir a \<noteq> [] \<longrightarrow> out_save_dir r \<noteq> ''checkpoint.pth'')
           \<and> torch_save E fs1 (out_checkpoint r) ''checkpoint.pth'' = Inr (out_fs r)"
proof -
  from assms obtain a where a: "get_arguments c = Inr a" and b: "main_body E fs a = Inr r"
    by (auto simp: main_def and_then_eq_Inr)
  from main_body_Inr [OF b] obtain fs1 l dts and ids :: "image_folder \<times> image_folder \<times> image_folder" and s where
    d: "(if os_path_exists E fs (save_dir a) then Inr fs else os_makedirs E fs (save_dir a)) = Inr fs1"
    and w: "torch_save E fs1 (make_checkpoint a l dts (fst ids) s) ''checkpoint.pth'' = Inr (out_fs r)"
    and p: "out_save_dir r = os_path_join (save_dir a) ''checkpoint.pth''"
    and k: "out_checkpoint r = make_checkpoint a l dts (fst ids) s"
    by blast
  from d have d': "if os_path_exists E fs (save_dir a) then fs1 = fs
                   else os_makedirs E fs (save_dir a) = Inr fs1"
    by (auto split: if_splits)
  have q: "save_dir a \<noteq> [] \<longrightarrow> out_save_dir r \<noteq> ''checkpoint.pth''"
    using p os_path_join_differs [of "save_dir a"] by simp
  from w k have w': "torch_save E fs1 (out_checkpoint r) ''checkpoint.pth'' = Inr (out_fs r)"
    by simp
  from a d' p q w' show ?thesis by blast
qed


text \<open>
  With \<^verbatim>\<open>--save_dir out\<close> in an empty working directory: the directory \<^verbatim>\<open>out\<close> is
  created, and the only file is \<^verbatim>\<open>checkpoint.pth\<close>, not \<^verbatim>\<open>out/checkpoint.pth\<close>.
\<close>

theorem checkpoint_written_to_fixed_filename_witness:
  "\<exists>r. main sample_env ([], []) sample_cmdline = Inr r
     \<and> out_save_dir r = ''out/checkpoint.pth''
     \<and> fst (out_fs r) = [''out'']
     \<and> map fst (snd (out_fs r)) = [''checkpoint.pth'']"
proof -
  obtain r where r: "main sample_env ([], []) sample_cmdline = Inr r"
    using sample_run_returns by blast
  from checkpoint_written_to_fixed_filename [OF r] obtain a fs1 where
    "get_arguments sample_cmdline = Inr a"
    "if os_path_exists sample_env ([], []) (save_dir a) then fs1 = ([], [])
     else os_makedirs sample_env ([], []) (save_dir a) = Inr fs1"
    "out_save_dir r = os_path_join (save_dir a) ''checkpoint.pth''"
    "torch_save sample_env fs1 (out_checkpoint r) ''checkpoint.pth'' = Inr (out_fs r)"
    by blast
  then have "out_save_dir r = ''out/checkpoint.pth''
     \<and> out_fs r = ([''out''], [(''checkpoint.pth'', out_checkpoint r)])"
    by (auto simp: get_arguments_def sample_cmdline_def sample_env_def os_path_join_def)
  with r show ?thesis by auto
qed

section \<open>Sequencing and batching\<close>

lemma try_fold_append:
  "try_fold f (xs @ ys) s = and_then (try_fold f xs s) (try_fold f ys)"
  by (induction xs arbitrary: s) (auto simp: and_then_def split: sum.splits)

lemma try_fold_invariant:
  assumes "try_fold f xs s = Inr s'" and "P s"
    and "\<And>x t t'. x \<in> set xs \<Longrightarrow> P t \<Longrightarrow> f x t = Inr t' \<Longrightarrow> P t'"
  shows "P s'"
  using assms
proof (induction xs arbitrary: s)
  case Nil
  then show ?case by simp
next
  case (Cons x xs)
  from Cons.prems(1) obtain t where t: "f x s = Inr t" and r: "try_fold f xs t = Inr s'"
    by (auto simp: and_then_eq_Inr)
  have "P t" using Cons.prems(2) t Cons.prems(3) [of x s t] by simp
  show ?case
  proof (rule Cons.IH [OF r \<open>P t\<close>])
    fix y u u' assume "y \<in> set xs" "P u" "f y u = Inr u'"
    then show "P u'" using Cons.prems(3) [of y u u'] by simp
  qed
qed

subsection \<open>Batching\<close>

lemma chunks_Nil [simp]: "chunks n [] = []"
  by (simp add: chunks.simps)

lemma chunks_zero [simp]: "chunks 0 xs = []"
  by (simp add: chunks.simps)

lemma chunks_step: "0 < n \<Longrightarrow> xs \<noteq> [] \<Longrightarrow> chunks n xs = take n xs # chunks n (drop n xs)"
  by (subst chunks.simps) simp

lemma chunks_nonempty: "ys \<in> set (chunks n xs) \<Longrightarrow> ys \<noteq> []"
proof (induction n xs rule: chunks.induct)
  case (1 n xs)
  show ?case
  proof (cases "n = 0 \<or> xs = []")
    case True
    with "1.prems" show ?thesis by auto
  next
    case False
    with "1.prems" "1.IH" show ?thesis
      by (auto simp: chunks_step)
  qed
qed

lemma length_chunks: "0 < n \<Longrightarrow> length (chunks n xs) = (length xs + n - 1) div n"
proof (induction n xs rule: chunks.induct)
  case (1 n xs)
  show ?case
  proof (cases "xs = []")
    case True
    with "1.prems" show ?thesis by simp
  next
    case False
    then have pos: "0 < length xs" by simp
    have ih: "length (chunks n (drop n xs)) = (length (drop n xs) + n - 1) div n"
      using "1.IH" "1.prems" False by simp
    show ?thesis
    proof (cases "length xs \<le> n")
      case True
      obtain k where k: "length xs = Suc k"
        using pos by (cases "length xs") auto
      have "k < n" using True k by simp
      then have "(k + n) div n = 1"
        using "1.prems" by simp
      then have "(Suc k + n - 1) div n = 1"
        by simp
      then have "(length xs + n - 1) div n = 1"
        using k by simp
      with True False ih "1.prems" show ?thesis
        by (simp add: chunks_step)
    next
      case F: False
      then have "length xs + n - 1 = (length xs - n + n - 1) + n" by simp
      then have "(length xs + n - 1) div n = Suc ((length xs - n + n - 1) div n)"
        using "1.prems" by (metis div_add_self2 Suc_eq_plus1 less_numeral_extra(3))
      with False ih "1.prems" show ?thesis
        by (simp add: chunks_step)
    qed
  qed
qed

lemma length_batches:
  "\<not> shuffle_on dl \<Longrightarrow> 0 < batch_size dl \<Longrightarrow> length (batches E dl k) = loader_len dl"
  by (simp add: batches_def loader_len_def length_chunks Let_def)

lemma batches_nonempty:
  "(xs, ys) \<in> set (batches E dl k) \<Longrightarrow> ys \<noteq> [] \<and> length xs = length ys"
  by (auto simp: batches_def Let_def dest: chunks_nonempty)

section \<open>The parameter store\<close>

subsection \<open>The parameter store under the optimizer and autograd\<close>

lemma emit_simps [simp]:
  "heap (emit evs s) = heap s" "net (emit evs s) = net s" "optim (emit evs s) = optim s"
  "steps (emit evs s) = steps s" "running_loss (emit evs s) = running_loss s"
  "trace (emit evs s) = trace s @ evs"
  by (simp_all add: emit_def)

lemma parameters_buffers [simp]: "parameters (m\<lparr>m_buffers := b\<rparr>) = parameters m"
  by (simp add: parameters_def named_parameters_def)

lemma parameters_training [simp]: "parameters (m\<lparr>training := b\<rparr>) = parameters m"
  by (simp add: parameters_def named_parameters_def)

lemma zero_grad_param_other: "b \<noteq> a \<Longrightarrow> zero_grad_param a h ! b = h ! b"
  by (simp add: zero_grad_param_def split: option.splits)

lemma nth_update_field:
  assumes "\<And>p. f (g p) = f p"
  shows "f (h[a := g (h ! a)] ! b) = f (h ! b)"
proof (cases "b = a \<and> a < length h")
  case True
  then show ?thesis by (simp add: assms)
next
  case False
  then have "h[a := g (h ! a)] ! b = h ! b"
    by (cases "a < length h") (auto simp: list_update_beyond)
  then show ?thesis by simp
qed

lemma zero_grad_param_keeps:
  "p_data (zero_grad_param a h ! b) = p_data (h ! b)
   \<and> requires_grad (zero_grad_param a h ! b) = requires_grad (h ! b)"
proof (cases "p_grad (h ! a)")
  case None
  then show ?thesis by (simp add: zero_grad_param_def)
next
  case (Some g)
  then have "zero_grad_param a h = h[a := (\<lambda>p. p\<lparr>p_grad := Some (map (\<lambda>_. 0) g)\<rparr>) (h ! a)]"
    by (simp add: zero_grad_param_def)
  then show ?thesis
    using nth_update_field [of p_data "\<lambda>p. p\<lparr>p_grad := Some (map (\<lambda>_. 0) g)\<rparr>" h a b]
          nth_update_field [of requires_grad "\<lambda>p. p\<lparr>p_grad := Some (map (\<lambda>_. 0) g)\<rparr>" h a b]
    by simp
qed

lemma zero_grad_outside: "b \<notin> set (param_group opt) \<Longrightarrow> zero_grad opt h ! b = h ! b"
proof -
  have "b \<notin> set as \<Longrightarrow> fold zero_grad_param as h ! b = h ! b" for as
    by (induction as arbitrary: h) (auto simp: zero_grad_param_other)
  then show "b \<notin> set (param_group opt) \<Longrightarrow> zero_grad opt h ! b = h ! b"
    by (simp add: zero_grad_def)
qed

lemma zero_grad_keeps:
  "p_data (zero_grad opt h ! b) = p_data (h ! b)"
  "requires_grad (zero_grad opt h ! b) = requires_grad (h ! b)"
proof -
  have "p_data (fold zero_grad_param as h ! b) = p_data (h ! b)
      \<and> requires_grad (fold zero_grad_param as h ! b) = requires_grad (h ! b)" for as
    by (induction as arbitrary: h) (simp_all add: zero_grad_param_keeps)
  then show "p_data (zero_grad opt h ! b) = p_data (h ! b)"
    "requires_grad (zero_grad opt h ! b) = requires_grad (h ! b)"
    by (simp_all add: zero_grad_def)
qed

lemma zero_grad_param_length [simp]: "length (zero_grad_param a h) = length h"
  by (simp add: zero_grad_param_def split: option.splits)

lemma zero_grad_param_at:
  "a < length h \<Longrightarrow>
   p_grad (zero_grad_param a h ! a) = map_option (map (\<lambda>_. 0)) (p_grad (h ! a))"
  by (simp add: zero_grad_param_def split: option.splits)

lemma fold_zero_grad_param_outside:
  "b \<notin> set as \<Longrightarrow> fold zero_grad_param as h ! b = h ! b"
  by (induction as arbitrary: h) (auto simp: zero_grad_param_other)

lemma fold_zero_grad_param_zeroes:
  "a \<in> set as \<Longrightarrow> a < length h \<Longrightarrow>
   p_grad (fold zero_grad_param as h ! a) = map_option (map (\<lambda>_. 0)) (p_grad (h ! a))"
proof (induction as arbitrary: h)
  case Nil
  then show ?case by simp
next
  case (Cons x as)
  let ?h1 = "zero_grad_param x h"
  have z: "map_option (map (\<lambda>_. 0::real)) (map_option (map (\<lambda>_. 0::real)) g)
             = map_option (map (\<lambda>_. 0::real)) g" for g :: "tensor option"
    by (cases g) simp_all
  have h1: "map_option (map (\<lambda>_. 0::real)) (p_grad (?h1 ! a))
              = map_option (map (\<lambda>_. 0::real)) (p_grad (h ! a))"
  proof (cases "a = x")
    case True
    with Cons.prems(2) have "p_grad (?h1 ! a) = map_option (map (\<lambda>_. 0)) (p_grad (h ! a))"
      by (simp add: zero_grad_param_at)
    then show ?thesis by (simp only: z)
  next
    case False
    then show ?thesis by (simp add: zero_grad_param_other)
  qed
  show ?case
  proof (cases "a \<in> set as")
    case True
    from Cons.IH [OF True, of ?h1] Cons.prems(2) h1 show ?thesis by simp
  next
    case False
    with Cons.prems(1) have ax: "a = x" by simp
    from False have "fold zero_grad_param as ?h1 ! a = ?h1 ! a"
      by (rule fold_zero_grad_param_outside)
    with ax Cons.prems(2) show ?thesis by (simp add: zero_grad_param_at)
  qed
qed

lemma zero_grad_zeroes:
  "a \<in> set (param_group opt) \<Longrightarrow> a < length h \<Longrightarrow>
   p_grad (zero_grad opt h ! a) = map_option (map (\<lambda>_. 0)) (p_grad (h ! a))"
  by (simp add: zero_grad_def fold_zero_grad_param_zeroes)

lemma zero_grad_length [simp]: "length (zero_grad opt h) = length h"
proof -
  have "length (fold zero_grad_param as h) = length h" for as
    by (induction as arbitrary: h) simp_all
  then show ?thesis by (simp add: zero_grad_def)
qed

lemma backward_param_frozen:
  "\<not> requires_grad (h ! b) \<Longrightarrow> backward_param gr ia h ! b = h ! b"
  by (cases ia; cases "snd ia = b") (auto simp: backward_param_def)

lemma backward_param_keeps:
  "p_data (backward_param gr ia h ! b) = p_data (h ! b)
   \<and> requires_grad (backward_param gr ia h ! b) = requires_grad (h ! b)"
proof (cases ia)
  case (Pair i a)
  show ?thesis
  proof (cases "requires_grad (h ! a)")
    case False
    with Pair show ?thesis by (simp add: backward_param_def)
  next
    case True
    let ?g = "\<lambda>p. p\<lparr>p_grad := Some (accumulate (p_grad (h ! a)) (gr i))\<rparr>"
    from True Pair have "backward_param gr ia h = h[a := ?g (h ! a)]"
      by (simp add: backward_param_def)
    then show ?thesis
      using nth_update_field [of p_data ?g h a b] nth_update_field [of requires_grad ?g h a b]
      by simp
  qed
qed

lemma fold_backward_param_keeps:
  "p_data (fold (backward_param gr) ias h ! b) = p_data (h ! b)
   \<and> requires_grad (fold (backward_param gr) ias h ! b) = requires_grad (h ! b)"
  by (induction ias arbitrary: h) (simp_all add: backward_param_keeps)

lemma fold_backward_param_frozen:
  "\<not> requires_grad (h ! b) \<Longrightarrow> fold (backward_param gr) ias h ! b = h ! b"
  by (induction ias arbitrary: h) (auto simp: backward_param_frozen)

lemma backward_param_length [simp]: "length (backward_param gr ia h) = length h"
  by (cases ia) (simp add: backward_param_def)

lemma backward_param_gives:
  "a < length h \<Longrightarrow> requires_grad (h ! a) \<Longrightarrow> p_grad (backward_param gr (i, a) h ! a) \<noteq> None"
  by (simp add: backward_param_def)

lemma backward_param_keeps_grad:
  "p_grad (h ! b) \<noteq> None \<Longrightarrow> p_grad (backward_param gr ia h ! b) \<noteq> None"
proof (cases ia)
  case (Pair i a)
  assume g: "p_grad (h ! b) \<noteq> None"
  show ?thesis
  proof (cases "requires_grad (h ! a) \<and> a = b \<and> a < length h")
    case True
    then have t: "requires_grad (h ! a)" "a = b" "a < length h"
      by blast+
    from backward_param_gives [OF t(3) t(1), of gr i] show ?thesis
      unfolding Pair t(2) .
  next
    case False
    then have "backward_param gr ia h ! b = h ! b"
      using Pair by (cases "a < length h") (auto simp: backward_param_def list_update_beyond)
    with g show ?thesis by simp
  qed
qed

lemma fold_backward_param_keeps_grad:
  "p_grad (h ! b) \<noteq> None \<Longrightarrow> p_grad (fold (backward_param gr) ias h ! b) \<noteq> None"
proof (induction ias arbitrary: h)
  case Nil
  then show ?case by simp
next
  case (Cons ia ias)
  from backward_param_keeps_grad [OF Cons.prems, of gr ia]
  have "p_grad (backward_param gr ia h ! b) \<noteq> None" .
  from Cons.IH [OF this] show ?case by simp
qed

lemma fold_backward_param_gives:
  "a \<in> snd ` set ias \<Longrightarrow> a < length h \<Longrightarrow> requires_grad (h ! a) \<Longrightarrow>
   p_grad (fold (backward_param gr) ias h ! a) \<noteq> None"
proof (induction ias arbitrary: h)
  case Nil
  then show ?case by simp
next
  case (Cons ia ias)
  obtain i x where ia: "ia = (i, x)" by (cases ia)
  let ?h1 = "backward_param gr ia h"
  show ?case
  proof (cases "x = a")
    case True
    with Cons.prems ia have "p_grad (?h1 ! a) \<noteq> None"
      by (simp add: backward_param_gives)
    then show ?thesis by (simp add: fold_backward_param_keeps_grad)
  next
    case False
    with Cons.prems(1) ia have m: "a \<in> snd ` set ias" by auto
    have "a < length ?h1" using Cons.prems(2) by simp
    moreover have "requires_grad (?h1 ! a)"
      using Cons.prems(3) backward_param_keeps [of gr ia h a] by simp
    ultimately show ?thesis using Cons.IH [OF m] by simp
  qed
qed

lemma backward_Inr:
  assumes "backward E m xs ys h = Inr h'"
  shows "\<exists>gr. h' = fold (backward_param gr) (enumerate 0 (parameters m)) h"
  using assms by (auto simp: backward_def Let_def split: if_splits)

lemma backward_gives:
  assumes "backward E m xs ys h = Inr h'"
    and "a \<in> set (parameters m)" and "a < length h" and "requires_grad (h ! a)"
  shows "p_grad (h' ! a) \<noteq> None"
proof -
  from backward_Inr [OF assms(1)] obtain gr where
    h': "h' = fold (backward_param gr) (enumerate 0 (parameters m)) h"
    by blast
  have "snd ` set (enumerate 0 (parameters m)) = set (parameters m)"
    by (metis list.set_map map_snd_enumerate)
  with assms(2) have "a \<in> snd ` set (enumerate 0 (parameters m))" by simp
  from fold_backward_param_gives [OF this assms(3,4)] show ?thesis
    by (simp add: h')
qed

lemma backward_keeps:
  assumes "backward E m xs ys h = Inr h'"
  shows "p_data (h' ! b) = p_data (h ! b) \<and> requires_grad (h' ! b) = requires_grad (h ! b)"
proof -
  from backward_Inr [OF assms] obtain gr where
    "h' = fold (backward_param gr) (enumerate 0 (parameters m)) h"
    by blast
  then show ?thesis by (simp add: fold_backward_param_keeps)
qed

lemma backward_frozen:
  assumes "backward E m xs ys h = Inr h'" and "\<not> requires_grad (h ! b)"
  shows "h' ! b = h ! b"
proof -
  from backward_Inr [OF assms(1)] obtain gr where
    "h' = fold (backward_param gr) (enumerate 0 (parameters m)) h"
    by blast
  then show ?thesis using assms(2) by (simp add: fold_backward_param_frozen)
qed

lemma step_param_Inr:
  assumes "step_param E a (h, opt) = Inr (h', opt')"
  shows "param_group opt' = param_group opt \<and> opt_lr opt' = opt_lr opt
       \<and> (b \<noteq> a \<longrightarrow> h' ! b = h ! b)
       \<and> requires_grad (h' ! b) = requires_grad (h ! b)"
proof (cases "p_grad (h ! a)")
  case None
  with assms show ?thesis by (simp add: step_param_def)
next
  case (Some g)
  with assms obtain w st where
    h': "h' = h[a := (h ! a)\<lparr>p_data := w\<rparr>]" and
    o': "opt' = opt\<lparr>opt_state := AList.update a st (opt_state opt)\<rparr>"
    by (auto simp: step_param_def and_then_eq_Inr)
  have "requires_grad (h' ! b) = requires_grad (h ! b)"
  proof (cases "b = a \<and> a < length h")
    case True
    then show ?thesis by (simp add: h')
  next
    case False
    then have "h' ! b = h ! b"
      by (cases "a < length h") (auto simp: h' list_update_beyond)
    then show ?thesis by simp
  qed
  then show ?thesis by (simp add: h' o')
qed

lemma try_fold_step_param_Inr:
  "try_fold (step_param E) as (h, opt) = Inr (h', opt') \<Longrightarrow>
     param_group opt' = param_group opt \<and> opt_lr opt' = opt_lr opt
   \<and> (b \<notin> set as \<longrightarrow> h' ! b = h ! b)
   \<and> requires_grad (h' ! b) = requires_grad (h ! b)"
proof (induction as arbitrary: h opt)
  case Nil
  then show ?case by simp
next
  case (Cons a as)
  from Cons.prems obtain h1 opt1 where
    1: "step_param E a (h, opt) = Inr (h1, opt1)" and
    2: "try_fold (step_param E) as (h1, opt1) = Inr (h', opt')"
    by (auto simp: and_then_eq_Inr)
  note A = step_param_Inr [OF 1, where b = b]
  note B = Cons.IH [OF 2]
  from A B show ?case by simp
qed

lemma optimizer_step_Inr:
  assumes "optimizer_step E opt h = Inr (h', opt')"
  shows "param_group opt' = param_group opt \<and> opt_lr opt' = opt_lr opt
       \<and> (b \<notin> set (param_group opt) \<longrightarrow> h' ! b = h ! b)
       \<and> requires_grad (h' ! b) = requires_grad (h ! b)"
  using assms try_fold_step_param_Inr [of E "param_group opt" h opt h' opt' b]
  by (simp add: optimizer_step_def)

subsection \<open>One training batch\<close>

lemma forward_Inr:
  assumes "forward E xs s = Inr (out, s1)"
  shows "\<exists>bufs. net_forward E (net s) (map (\<lambda>a. p_data (heap s ! a)) (parameters (net s))) xs
                  = Inr (out, bufs)
               \<and> s1 = emit [Forward] (s\<lparr>net := (net s)\<lparr>m_buffers := bufs\<rparr>\<rparr>)"
  using assms by (auto simp: forward_def and_then_eq_Inr)

section \<open>A training batch and a validation pass\<close>

lemma train_step_Inr:
  assumes "train_step E c (inputs, labels) s = Inr s'"
  shows "\<exists>outputs bufs loss h5 h6 opt6.
      to_cuda E c = Inr ()
    \<and> net_forward E (net s)
        (map (\<lambda>a. p_data (zero_grad (optim s) (heap s) ! a)) (parameters (net s))) inputs
        = Inr (outputs, bufs)
    \<and> NLLLoss outputs labels = Inr loss
    \<and> backward E (net s) inputs labels (zero_grad (optim s) (heap s)) = Inr h5
    \<and> optimizer_step E (optim s) h5 = Inr (h6, opt6)
    \<and> heap s' = h6 \<and> optim s' = opt6 \<and> net s' = (net s)\<lparr>m_buffers := bufs\<rparr>
    \<and> steps s' = steps s + 1
    \<and> running_loss s' = running_loss s + loss
    \<and> trace s' = trace s @ [ZeroGrad, Forward, Criterion loss, Backward, OptimStep]"
proof -
  let ?s2 = "emit [ZeroGrad] (s\<lparr>steps := steps s + 1, heap := zero_grad (optim s) (heap s)\<rparr>)"
  from assms have c: "to_cuda E c = Inr ()"
    by (auto simp: train_step_def Let_def and_then_eq_Inr)
  from assms obtain outputs s3 loss h5 h6 opt6 where
    f: "forward E inputs ?s2 = Inr (outputs, s3)" and
    l: "NLLLoss outputs labels = Inr loss" and
    b: "backward E (net s) inputs labels (heap s3) = Inr h5" and
    o: "optimizer_step E (optim s3) h5 = Inr (h6, opt6)" and
    s': "s' = (emit [OptimStep] ((emit [Backward] ((emit [Criterion loss] s3)\<lparr>heap := h5\<rparr>))
                 \<lparr>heap := h6, optim := opt6\<rparr>))
               \<lparr>running_loss := running_loss s3 + loss\<rparr>"
    by (auto simp: train_step_def Let_def and_then_eq_Inr)
  from forward_Inr [OF f] obtain bufs where
    nf: "net_forward E (net ?s2) (map (\<lambda>a. p_data (heap ?s2 ! a)) (parameters (net ?s2))) inputs
           = Inr (outputs, bufs)" and
    s3: "s3 = emit [Forward] (?s2\<lparr>net := (net ?s2)\<lparr>m_buffers := bufs\<rparr>\<rparr>)"
    by blast
  have "heap s3 = zero_grad (optim s) (heap s)" "optim s3 = optim s"
    "net s3 = (net s)\<lparr>m_buffers := bufs\<rparr>" "steps s3 = steps s + 1"
    "running_loss s3 = running_loss s" "trace s3 = trace s @ [ZeroGrad, Forward]"
    by (simp_all add: s3)
  with c nf l b o s' show ?thesis
    by (simp add: emit_def)
qed

lemma validate_batch_Inr:
  assumes "validate_batch E c (images, labels) (s, acc, vl) = Inr (s', acc', vl')"
  shows "\<exists>outp bufs v.
      net_forward E (net s) (map (\<lambda>a. p_data (heap s ! a)) (parameters (net s))) images
        = Inr (outp, bufs)
    \<and> forward E images s = Inr (outp, emit [Forward] (s\<lparr>net := (net s)\<lparr>m_buffers := bufs\<rparr>\<rparr>))
    \<and> NLLLoss outp labels = Inr v
    \<and> s' = emit [Forward, Criterion v] (s\<lparr>net := (net s)\<lparr>m_buffers := bufs\<rparr>\<rparr>)
    \<and> acc' = acc + batch_accuracy outp labels
    \<and> vl' = vl + v"
proof -
  from assms obtain outp s1 v where
    f: "forward E images s = Inr (outp, s1)" and
    l: "NLLLoss outp labels = Inr v" and
    r: "s' = emit [Criterion v] s1" "acc' = acc + batch_accuracy outp labels" "vl' = vl + v"
    by (auto simp: validate_batch_def and_then_eq_Inr)
  from forward_Inr [OF f] obtain bufs where
    nf: "net_forward E (net s) (map (\<lambda>a. p_data (heap s ! a)) (parameters (net s))) images
           = Inr (outp, bufs)" and
    s1: "s1 = emit [Forward] (s\<lparr>net := (net s)\<lparr>m_buffers := bufs\<rparr>\<rparr>)"
    by blast
  from f l r nf s1 show ?thesis
    by (simp add: emit_def)
qed

lemma validation_frame_refl: "validation_frame s s"
  by (simp add: validation_frame_def)

lemma validate_batch_frame:
  assumes "validate_batch E c b (s1, acc, vl) = Inr (s', acc', vl')"
    and "validation_frame s s1"
  shows "validation_frame s s'"
proof -
  obtain images labels where b: "b = (images, labels)" by (cases b)
  from validate_batch_Inr [OF assms(1) [unfolded b]] obtain bufs v where
    "s' = emit [Forward, Criterion v] (s1\<lparr>net := (net s1)\<lparr>m_buffers := bufs\<rparr>\<rparr>)"
    by blast
  with assms(2) show ?thesis
    by (auto simp: validation_frame_def is_quiet_def)
qed

lemma validate_fold_frame:
  assumes "try_fold (validate_batch E c) bs (s, acc, vl) = Inr (s', acc', vl')"
  shows "validation_frame s s'"
proof -
  have "(\<lambda>(t, a, v). validation_frame s t) (s', acc', vl')"
  proof (rule try_fold_invariant [OF assms])
    show "(\<lambda>(t, a, v). validation_frame s t) (s, acc, vl)"
      by (simp add: validation_frame_refl)
  next
    fix x t t'
    assume "(\<lambda>(t, a, v). validation_frame s t) t" "validate_batch E c x t = Inr t'"
    then show "(\<lambda>(t, a, v). validation_frame s t) t'"
      by (cases t; cases t') (auto intro: validate_batch_frame)
  qed
  then show ?thesis by simp
qed

lemma validation_Inr:
  assumes "validation E vlo c e n s = Inr s'"
  shows "\<exists>s2 acc vl evs.
      try_fold (validate_batch E c) (batches E vlo (steps s))
        (emit [ModelEval] (s\<lparr>net := (net s)\<lparr>training := False\<rparr>\<rparr>), 0, 0) = Inr (s2, acc, vl)
    \<and> loader_len vlo \<noteq> 0
    \<and> list_all is_quiet evs
    \<and> trace s' = trace s @ [ModelEval] @ evs @
         [PrintStats \<lparr>shown_epoch = e + 1, shown_epochs = n,
                      shown_training_loss = running_loss s / real print_every,
                      shown_validation_loss = vl / real (loader_len vlo),
                      shown_accuracy = acc / real (loader_len vlo)\<rparr>, ModelTrain]
    \<and> heap s' = heap s \<and> optim s' = optim s \<and> steps s' = steps s
    \<and> running_loss s' = 0
    \<and> parameters (net s') = parameters (net s)
    \<and> training (net s')"
proof -
  let ?s1 = "emit [ModelEval] (s\<lparr>net := (net s)\<lparr>training := False\<rparr>\<rparr>)"
  from assms obtain s2 acc vl where
    f: "try_fold (validate_batch E c) (batches E vlo (steps s)) (?s1, 0, 0) = Inr (s2, acc, vl)"
    and n0: "loader_len vlo \<noteq> 0"
    and s': "s' = emit [ModelTrain]
              ((emit [PrintStats \<lparr>shown_epoch = e + 1, shown_epochs = n,
                      shown_training_loss = running_loss s2 / real print_every,
                      shown_validation_loss = vl / real (loader_len vlo),
                      shown_accuracy = acc / real (loader_len vlo)\<rparr>] s2)
                 \<lparr>running_loss := 0,
                  net := (net s2)\<lparr>training := True\<rparr>\<rparr>)"
    by (auto simp: validation_def Let_def and_then_eq_Inr emit_def split: if_splits)
  from validate_fold_frame [OF f] obtain evs where
    fr: "heap s2 = heap s" "optim s2 = optim s" "steps s2 = steps s"
        "running_loss s2 = running_loss s" "parameters (net s2) = parameters (net s)"
        "trace s2 = (trace s @ [ModelEval]) @ evs" "list_all is_quiet evs"
    by (auto simp: validation_frame_def)
  from f n0 fr show ?thesis
    by (simp add: s')
qed

section \<open>The schedule and the audit along an epoch\<close>

lemma quiet_not_sched: "list_all is_quiet evs \<Longrightarrow> filter is_sched evs = []"
  by (induction evs) (auto simp: is_quiet_def is_sched_def split: event.splits)

lemma quiet_audit:
  "list_all is_quiet evs \<Longrightarrow> fold audit_step evs (Some (acc, True)) = Some (acc, True)"
  by (induction evs) (auto simp: is_quiet_def split: event.splits)

lemma schedule_same [simp]: "schedule k k = []"
  by (simp add: schedule_def)

lemma schedule_Suc: "j \<le> k \<Longrightarrow> schedule j (Suc k) = schedule j k @ step_events (Suc k)"
  by (simp add: schedule_def)

lemma schedule_Cons: "j < k \<Longrightarrow> schedule j k = step_events (Suc j) @ schedule (Suc j) k"
proof -
  assume "j < k"
  then have "[Suc j ..< Suc k] = Suc j # [Suc (Suc j) ..< Suc k]"
    by (simp add: upt_conv_Cons del: upt_Suc)
  then show ?thesis
    by (simp add: schedule_def del: upt_Suc)
qed

lemma train_batch_Inr:
  assumes "train_batch E dls c e n b s = Inr s'"
  shows "steps s' = steps s + 1
       \<and> filter is_sched (trace s') = filter is_sched (trace s) @ step_events (steps s + 1)
       \<and> (\<exists>evs. trace s' = trace s @ evs
            \<and> fold audit_step evs (Some (running_loss s, False)) = Some (running_loss s', False))"
proof -
  obtain inputs labels where b: "b = (inputs, labels)" by (cases b)
  from assms obtain s1 where
    1: "train_step E c (inputs, labels) s = Inr s1" and
    2: "(if steps s1 mod print_every = 0 then validation E (fst (snd dls)) c e n s1 else Inr s1)
          = Inr s'"
    by (auto simp: train_batch_def and_then_eq_Inr b)
  from train_step_Inr [OF 1] obtain loss where
    st: "steps s1 = steps s + 1" and
    rl: "running_loss s1 = running_loss s + loss" and
    tr: "trace s1 = trace s @ [ZeroGrad, Forward, Criterion loss, Backward, OptimStep]"
    by blast
  show ?thesis
  proof (cases "steps s1 mod print_every = 0")
    case False
    with 2 have "s' = s1" by simp
    with False st rl tr show ?thesis
      by (simp add: is_sched_def step_events_def print_every_def)
  next
    case True
    with 2 have v: "validation E (fst (snd dls)) c e n s1 = Inr s'" by simp
    from validation_Inr [OF v] obtain evs line where
      q: "list_all is_quiet evs" and
      t': "trace s' = trace s1 @ [ModelEval] @ evs @ [PrintStats line, ModelTrain]" and
      ln: "shown_training_loss line = running_loss s1 / real print_every" and
      st': "steps s' = steps s1" and rl': "running_loss s' = 0"
      by force
    have a: "filter is_sched (trace s') = filter is_sched (trace s) @ [OptimStep, ModelEval]"
      using quiet_not_sched [OF q] by (simp add: t' tr is_sched_def)
    let ?evs = "[ZeroGrad, Forward, Criterion loss, Backward, OptimStep] @ [ModelEval] @ evs
                 @ [PrintStats line, ModelTrain]"
    have "fold audit_step ?evs (Some (running_loss s, False)) = Some (running_loss s', False)"
      using quiet_audit [OF q] by (simp add: ln rl rl' print_every_def)
    moreover have "trace s' = trace s @ ?evs"
      by (simp add: t' tr)
    ultimately show ?thesis
      using True st st' a by (auto simp: step_events_def print_every_def)
  qed
qed

lemma train_batches_Inr:
  assumes "try_fold (train_batch E dls c e n) bs s = Inr s'"
  shows "steps s' = steps s + length bs
       \<and> filter is_sched (trace s') = filter is_sched (trace s) @ schedule (steps s) (steps s')
       \<and> (\<exists>evs. trace s' = trace s @ evs
            \<and> fold audit_step evs (Some (running_loss s, False)) = Some (running_loss s', False))"
  using assms
proof (induction bs arbitrary: s)
  case Nil
  then show ?case by simp
next
  case (Cons b bs)
  from Cons.prems obtain s1 where
    1: "train_batch E dls c e n b s = Inr s1" and
    2: "try_fold (train_batch E dls c e n) bs s1 = Inr s'"
    by (auto simp: and_then_eq_Inr)
  from train_batch_Inr [OF 1] obtain evs1 where
    a: "steps s1 = steps s + 1"
       "filter is_sched (trace s1) = filter is_sched (trace s) @ step_events (steps s + 1)"
       "trace s1 = trace s @ evs1"
       "fold audit_step evs1 (Some (running_loss s, False)) = Some (running_loss s1, False)"
    by blast
  from Cons.IH [OF 2] obtain evs2 where
    b: "steps s' = steps s1 + length bs"
       "filter is_sched (trace s') = filter is_sched (trace s1) @ schedule (steps s1) (steps s')"
       "trace s' = trace s1 @ evs2"
       "fold audit_step evs2 (Some (running_loss s1, False)) = Some (running_loss s', False)"
    by blast
  have "schedule (steps s) (steps s') = step_events (steps s + 1) @ schedule (steps s1) (steps s')"
    using a(1) b(1) schedule_Cons [of "steps s" "steps s'"] by simp
  moreover have "trace s' = trace s @ (evs1 @ evs2)"
    by (simp add: a b)
  moreover have "fold audit_step (evs1 @ evs2) (Some (running_loss s, False))
                   = Some (running_loss s', False)"
    by (simp add: a b)
  ultimately show ?case
    using a(1,2) b(1,2) by (metis add.assoc append.assoc length_Cons plus_1_eq_Suc)
qed

section \<open>Epochs and the whole loop\<close>

lemma schedule_append: "j \<le> k \<Longrightarrow> k \<le> m \<Longrightarrow> schedule j k @ schedule k m = schedule j m"
proof (induction m)
  case 0
  then show ?case by simp
next
  case (Suc m)
  show ?case
  proof (cases "k = Suc m")
    case True
    then show ?thesis by simp
  next
    case False
    with Suc.prems have km: "k \<le> m" by simp
    with Suc.prems have jm: "j \<le> m" by simp
    from Suc.IH [OF Suc.prems(1) km] show ?thesis
      by (simp add: schedule_Suc [OF km] schedule_Suc [OF jm])
  qed
qed

lemma train_epoch_Inr:
  assumes "train_epoch E dls c n e s = Inr s'"
  shows "steps s' = steps s + length (batches E (fst dls) e)
       \<and> filter is_sched (trace s') = filter is_sched (trace s) @ schedule (steps s) (steps s')
       \<and> (\<exists>evs. trace s' = trace s @ evs
            \<and> fold audit_step evs (Some (0, False)) = Some (running_loss s', False))"
  using train_batches_Inr [OF assms [unfolded train_epoch_def]] by simp

lemma train_epochs_Inr:
  assumes "try_fold (train_epoch E dls c n) es s = Inr s'"
  shows "steps s' = steps s + sum_list (map (\<lambda>e. length (batches E (fst dls) e)) es)
       \<and> filter is_sched (trace s') = filter is_sched (trace s) @ schedule (steps s) (steps s')"
  using assms
proof (induction es arbitrary: s)
  case Nil
  then show ?case by simp
next
  case (Cons e es)
  from Cons.prems obtain s1 where
    1: "train_epoch E dls c n e s = Inr s1" and
    2: "try_fold (train_epoch E dls c n) es s1 = Inr s'"
    by (auto simp: and_then_eq_Inr)
  note a = train_epoch_Inr [OF 1]
  note b = Cons.IH [OF 2]
  have "steps s \<le> steps s1" "steps s1 \<le> steps s'"
    using a b by simp_all
  from schedule_append [OF this] a b show ?case
    by simp
qed

lemma train_model_Inr:
  assumes "train_model E dls n c s = Inr s'"
  shows "\<exists>m s1. (if c then module_cuda E (net s) else Inr (module_cpu (net s))) = Inr m
     \<and> try_fold (train_epoch E dls c n) [0 ..< nat n] (s\<lparr>steps := 0, net := m\<rparr>) = Inr s1
     \<and> s' = emit [PrintElapsed] s1"
  using assms by (auto simp: train_model_def Let_def and_then_eq_Inr)

text \<open>
  Claim C2. \<^verbatim>\<open>train_model\<close> sets \<^verbatim>\<open>steps\<close> to 0 once, before the epoch loop, and adds 1
  for every training batch of every epoch, so that at the end it is the total number of
  batches served. Reading the trace for optimizer steps and switches to evaluation mode
  only, the run is \<open>schedule 0 (steps s')\<close>: step number \<open>i\<close> (counted over the whole
  run, across epoch boundaries) is followed by a validation pass exactly when 10 divides
  \<open>i\<close>.
\<close>

theorem validation_every_ten_global_steps:
  assumes "train_model E dls n c s = Inr s'"
  shows "steps s' = sum_list (map (\<lambda>e. length (batches E (fst dls) e)) [0 ..< nat n])
       \<and> filter is_sched (trace s') = filter is_sched (trace s) @ schedule 0 (steps s')"
proof -
  from train_model_Inr [OF assms] obtain m s1 where
    f: "try_fold (train_epoch E dls c n) [0 ..< nat n] (s\<lparr>steps := 0, net := m\<rparr>) = Inr s1"
    and s': "s' = emit [PrintElapsed] s1"
    by blast
  from train_epochs_Inr [OF f] show ?thesis
    by (simp add: s' is_sched_def)
qed

text \<open>
  Claim C9. An epoch starts by setting \<^verbatim>\<open>running_loss\<close> to 0, so what it was before does
  not matter. Within the epoch, every printed Training Loss is the sum of the training
  losses since the epoch began or since the previous print (whichever came last), divided
  by the constant 10, however many batches that sum has: \<open>audit_step\<close> replays the
  trace with such an accumulator and checks each status line against it.
\<close>

theorem training_loss_reset_and_divided_by_ten:
  assumes "train_epoch E dls c n e s = Inr s'"
  shows "train_epoch E dls c n e (s\<lparr>running_loss := x\<rparr>) = Inr s'
       \<and> (\<exists>evs. trace s' = trace s @ evs
            \<and> fold audit_step evs (Some (0, False)) = Some (running_loss s', False))"
  using assms train_epoch_Inr [OF assms] by (simp add: train_epoch_def)

text \<open>
  Claim C5. A training batch that goes through has done exactly this, in this order, one
  step feeding the next: \<^verbatim>\<open>optimizer.zero_grad()\<close> on the store (every gradient held by one
  of the optimizer's parameters is now all zeros); the forward pass on the parameters of
  that store; the negative log-likelihood of its output against the integer labels;
  \<^verbatim>\<open>loss.backward()\<close> on the zeroed store (every parameter of the model that requires a
  gradient now has one); \<^verbatim>\<open>optimizer.step()\<close> on the store that backpropagation left, whose
  result is the new store and optimizer; then the loss is added to \<^verbatim>\<open>running_loss\<close> and
  \<^verbatim>\<open>steps\<close> has grown by one. The trace shows the five calls in that order. With the
  optimizer built over the classifier head, as \<^verbatim>\<open>main\<close> builds it, the data of every
  parameter outside the head is unchanged.
\<close>

theorem training_batch_order:
  assumes "train_step E c (inputs, labels) s = Inr s'"
    and "param_group (optim s) = classifier_parameters (classifier (net s))"
  shows "\<exists>outputs bufs loss h5.
      net_forward E (net s)
        (map (\<lambda>a. p_data (zero_grad (optim s) (heap s) ! a)) (parameters (net s))) inputs
        = Inr (outputs, bufs)
    \<and> NLLLoss outputs labels = Inr loss
    \<and> backward E (net s) inputs labels (zero_grad (optim s) (heap s)) = Inr h5
    \<and> optimizer_step E (optim s) h5 = Inr (heap s', optim s')
    \<and> net s' = (net s)\<lparr>m_buffers := bufs\<rparr>
    \<and> steps s' = steps s + 1
    \<and> trace s' = trace s @ [ZeroGrad, Forward, Criterion loss, Backward, OptimStep]
    \<and> running_loss s' = running_loss s + loss
    \<and> (\<forall>a \<in> set (param_group (optim s)). a < length (heap s) \<longrightarrow>
           p_grad (zero_grad (optim s) (heap s) ! a)
             = map_option (map (\<lambda>_. 0::real)) (p_grad (heap s ! a)))
    \<and> (\<forall>a \<in> set (parameters (net s)). a < length (heap s) \<and> requires_grad (heap s ! a) \<longrightarrow>
           p_grad (h5 ! a) \<noteq> None)
    \<and> (\<forall>a. a \<notin> set (classifier_parameters (classifier (net s)))
           \<longrightarrow> p_data (heap s' ! a) = p_data (heap s ! a))"
proof -
  let ?zg = "zero_grad (optim s) (heap s)"
  from train_step_Inr [OF assms(1)] obtain outputs bufs loss h5 where
    nf: "net_forward E (net s) (map (\<lambda>a. p_data (?zg ! a)) (parameters (net s))) inputs
           = Inr (outputs, bufs)" and
    l: "NLLLoss outputs labels = Inr loss" and
    b: "backward E (net s) inputs labels ?zg = Inr h5" and
    o: "optimizer_step E (optim s) h5 = Inr (heap s', optim s')" and
    n: "net s' = (net s)\<lparr>m_buffers := bufs\<rparr>" and
    st: "steps s' = steps s + 1" and
    r: "running_loss s' = running_loss s + loss" and
    t: "trace s' = trace s @ [ZeroGrad, Forward, Criterion loss, Backward, OptimStep]"
    by auto
  have z: "\<forall>a \<in> set (param_group (optim s)). a < length (heap s) \<longrightarrow>
             p_grad (?zg ! a) = map_option (map (\<lambda>_. 0::real)) (p_grad (heap s ! a))"
    by (simp add: zero_grad_zeroes)
  have g: "\<forall>a \<in> set (parameters (net s)). a < length (heap s) \<and> requires_grad (heap s ! a) \<longrightarrow>
             p_grad (h5 ! a) \<noteq> None"
  proof (intro ballI impI)
    fix a assume a: "a \<in> set (parameters (net s))"
      and "a < length (heap s) \<and> requires_grad (heap s ! a)"
    then have "a < length ?zg" "requires_grad (?zg ! a)"
      by (simp_all add: zero_grad_keeps)
    with backward_gives [OF b a] show "p_grad (h5 ! a) \<noteq> None" by simp
  qed
  have k: "\<forall>a. a \<notin> set (classifier_parameters (classifier (net s)))
           \<longrightarrow> p_data (heap s' ! a) = p_data (heap s ! a)"
  proof (intro allI impI)
    fix a assume "a \<notin> set (classifier_parameters (classifier (net s)))"
    with assms(2) have "a \<notin> set (param_group (optim s))" by simp
    with optimizer_step_Inr [OF o, of a] have "heap s' ! a = h5 ! a" by simp
    with backward_keeps [OF b, of a] zero_grad_keeps(1) [of "optim s" "heap s" a]
    show "p_data (heap s' ! a) = p_data (heap s ! a)" by simp
  qed
  from nf l b o n st t r z g k show ?thesis by blast
qed

section \<open>Running the sample state\<close>

lemma argmax_aux_exp: "argmax_aux best (exp bv) i (map exp vs) = argmax_aux best bv i vs"
  by (induction vs arbitrary: best bv i) auto

lemma predictions_code [code]: "predictions outp = map argmax outp"
proof -
  have "argmax (map exp row) = argmax row" for row
    by (cases row) (simp_all add: argmax_def argmax_aux_exp)
  then show ?thesis by (simp add: predictions_def)
qed

lemmas sample_train_defs =
  train_model_def train_epoch_def train_batch_def train_step_def validation_def
  validate_batch_def forward_def backward_def backward_param_def optimizer_step_def
  step_param_def zero_grad_def zero_grad_param_def NLLLoss_def batch_accuracy_def
  mean_bool_def predictions_code argmax_def accumulate_def batches_def loader_len_def
  to_cuda_def module_cpu_def emit_def print_every_def parameters_def named_parameters_def
  classifier_parameters_def sample_env_def sample_state_def sample_loaders_def Let_def
  chunks.simps enumerate_eq_zip upt_rec

lemma sample_training_returns:
  "\<exists>s'. train_model sample_env sample_loaders 2 False sample_state = Inr s'"
  by (simp add: sample_train_defs)

section \<open>Frozen parameters\<close>

lemma frozen_kept_refl: "frozen_kept B s s"
  by (simp add: frozen_kept_def)

lemma frozen_kept_trans: "frozen_kept B s0 s \<Longrightarrow> frozen_kept B s s' \<Longrightarrow> frozen_kept B s0 s'"
  by (simp add: frozen_kept_def)

lemma frozen_in_kept: "frozen_in B s0 \<Longrightarrow> frozen_kept B s0 s \<Longrightarrow> frozen_in B s"
  by (simp add: frozen_kept_def frozen_in_def)

lemma train_step_kept:
  assumes "train_step E c b s = Inr s'" and "frozen_in B s"
  shows "frozen_kept B s s'"
proof -
  obtain inputs labels where b: "b = (inputs, labels)" by (cases b)
  from train_step_Inr [OF assms(1) [unfolded b]] obtain bufs h5 opt6 where
    bw: "backward E (net s) inputs labels (zero_grad (optim s) (heap s)) = Inr h5" and
    o: "optimizer_step E (optim s) h5 = Inr (heap s', opt6)" and
    os: "optim s' = opt6" and n: "net s' = (net s)\<lparr>m_buffers := bufs\<rparr>"
    by blast
  have "heap s' ! a = heap s ! a" if "a \<in> B" for a
  proof -
    from that assms(2) have ng: "a \<notin> set (param_group (optim s))"
      and fr: "\<not> requires_grad (heap s ! a)"
      by (auto simp: frozen_in_def)
    have z: "zero_grad (optim s) (heap s) ! a = heap s ! a"
      using ng by (rule zero_grad_outside)
    have "h5 ! a = zero_grad (optim s) (heap s) ! a"
      using bw fr z by (intro backward_frozen) simp_all
    moreover have "heap s' ! a = h5 ! a"
      using optimizer_step_Inr [OF o, of a] ng by simp
    ultimately show ?thesis using z by simp
  qed
  with optimizer_step_Inr [OF o] os n show ?thesis
    by (simp add: frozen_kept_def)
qed

lemma validation_kept:
  assumes "validation E vlo c e n s = Inr s'"
  shows "frozen_kept B s s'"
proof -
  let ?s1 = "emit [ModelEval] (s\<lparr>net := (net s)\<lparr>training := False\<rparr>\<rparr>)"
  from assms obtain s2 acc vl line where
    f: "try_fold (validate_batch E c) (batches E vlo (steps s)) (?s1, 0, 0) = Inr (s2, acc, vl)"
    and s': "s' = emit [ModelTrain] ((emit [PrintStats line] s2)
                 \<lparr>running_loss := 0, net := (net s2)\<lparr>training := True\<rparr>\<rparr>)"
    by (auto simp: validation_def Let_def and_then_eq_Inr emit_def split: if_splits)
  have "(\<lambda>(t, a, v). heap t = heap s \<and> optim t = optim s
           \<and> parameters (net t) = parameters (net s)
           \<and> classifier (net t) = classifier (net s)) (s2, acc, vl)"
  proof (rule try_fold_invariant [OF f])
    show "(\<lambda>(t, a, v). heap t = heap s \<and> optim t = optim s
           \<and> parameters (net t) = parameters (net s)
           \<and> classifier (net t) = classifier (net s)) (?s1, 0, 0)"
      by simp
  next
    fix x t t'
    assume p: "(\<lambda>(t, a, v). heap t = heap s \<and> optim t = optim s
           \<and> parameters (net t) = parameters (net s)
           \<and> classifier (net t) = classifier (net s)) t"
      and v: "validate_batch E c x t = Inr t'"
    obtain images labels where x: "x = (images, labels)" by (cases x)
    obtain t1 a1 v1 where t: "t = (t1, a1, v1)" by (cases t)
    obtain t2 a2 v2 where t': "t' = (t2, a2, v2)" by (cases t')
    from validate_batch_Inr [OF v [unfolded x t t']] obtain bufs w where
      "t2 = emit [Forward, Criterion w] (t1\<lparr>net := (net t1)\<lparr>m_buffers := bufs\<rparr>\<rparr>)"
      by blast
    with p show "(\<lambda>(t, a, v). heap t = heap s \<and> optim t = optim s
           \<and> parameters (net t) = parameters (net s)
           \<and> classifier (net t) = classifier (net s)) t'"
      by (simp add: t t')
  qed
  then show ?thesis
    by (simp add: s' frozen_kept_def)
qed

lemma train_batch_kept:
  assumes "train_batch E dls c e n b s = Inr s'" and "frozen_in B s"
  shows "frozen_kept B s s'"
proof -
  from assms(1) obtain s1 where
    1: "train_step E c b s = Inr s1" and
    2: "(if steps s1 mod print_every = 0 then validation E (fst (snd dls)) c e n s1 else Inr s1)
          = Inr s'"
    by (auto simp: train_batch_def and_then_eq_Inr)
  note k1 = train_step_kept [OF 1 assms(2)]
  have "frozen_kept B s1 s'"
    using 2 validation_kept [of E "fst (snd dls)" c e n s1 s' B]
    by (auto simp: frozen_kept_refl split: if_splits)
  with k1 show ?thesis by (rule frozen_kept_trans)
qed

lemma train_epoch_kept:
  assumes "train_epoch E dls c n e s = Inr s'" and "frozen_in B s"
  shows "frozen_kept B s s'"
proof -
  let ?s0 = "s\<lparr>running_loss := 0\<rparr>"
  have f: "try_fold (train_batch E dls c e n) (batches E (fst dls) e) ?s0 = Inr s'"
    using assms(1) by (simp add: train_epoch_def)
  have i0: "frozen_in B ?s0"
    using assms(2) by (simp add: frozen_in_def)
  have "frozen_kept B ?s0 s'"
  proof (rule try_fold_invariant [OF f])
    show "frozen_kept B ?s0 ?s0" by (rule frozen_kept_refl)
  next
    fix x t t'
    assume k: "frozen_kept B ?s0 t" and b: "train_batch E dls c e n x t = Inr t'"
    from train_batch_kept [OF b frozen_in_kept [OF i0 k]] k
    show "frozen_kept B ?s0 t'" by (rule frozen_kept_trans [rotated])
  qed
  then show ?thesis by (simp add: frozen_kept_def)
qed

lemma train_model_kept:
  assumes "train_model E dls n c s = Inr s'" and "frozen_in B s"
  shows "frozen_kept B s s'"
proof -
  from train_model_Inr [OF assms(1)] obtain m s1 where
    m: "(if c then module_cuda E (net s) else Inr (module_cpu (net s))) = Inr m" and
    f: "try_fold (train_epoch E dls c n) [0 ..< nat n] (s\<lparr>steps := 0, net := m\<rparr>) = Inr s1" and
    s': "s' = emit [PrintElapsed] s1"
    by blast
  let ?s0 = "s\<lparr>steps := 0, net := m\<rparr>"
  from m have pm: "parameters m = parameters (net s) \<and> classifier m = classifier (net s)"
    by (auto simp: module_cuda_def module_cpu_def parameters_def named_parameters_def
             split: if_splits)
  then have k0: "frozen_kept B s ?s0"
    by (simp add: frozen_kept_def)
  have i0: "frozen_in B ?s0"
    using assms(2) by (simp add: frozen_in_def)
  have "frozen_kept B ?s0 s1"
  proof (rule try_fold_invariant [OF f])
    show "frozen_kept B ?s0 ?s0" by (rule frozen_kept_refl)
  next
    fix x t t'
    assume k: "frozen_kept B ?s0 t" and b: "train_epoch E dls c n x t = Inr t'"
    from train_epoch_kept [OF b frozen_in_kept [OF i0 k]] k
    show "frozen_kept B ?s0 t'" by (rule frozen_kept_trans [rotated])
  qed
  with k0 have "frozen_kept B s s1" by (rule frozen_kept_trans)
  then show ?thesis by (simp add: s' frozen_kept_def)
qed

section \<open>The script as a whole\<close>

lemma main_body_hidden_units: "main_body E fs (a\<lparr>hidden_units := v\<rparr>) = main_body E fs a"
  by (simp add: main_body_def make_checkpoint_def)

text \<open>
  Claim C8. Two command lines that differ only in \<^verbatim>\<open>--hidden_units\<close> give the same run:
  the same error or the same file system, checkpoint, model and trace.
\<close>

theorem hidden_units_never_read:
  "main E fs (c\<lparr>c_hidden_units := u\<rparr>) = main E fs c"
proof (cases "c_data_path c")
  case None
  then show ?thesis by (simp add: main_def get_arguments_def)
next
  case (Some p)
  then obtain a where a: "get_arguments c = Inr a"
    by (simp add: get_arguments_def)
  with Some have "get_arguments (c\<lparr>c_hidden_units := u\<rparr>)
                   = Inr (a\<lparr>hidden_units := store (PyInt 512) u\<rparr>)"
    by (auto simp: get_arguments_def)
  with a show ?thesis
    by (simp add: main_def main_body_hidden_units)
qed

lemma select_model_unsupported:
  "name \<noteq> ''densenet121'' \<Longrightarrow> name \<noteq> ''vgg19'' \<Longrightarrow> select_model E name h = Inr (h, None)"
  by (simp add: select_model_def)

text \<open>
  Claim C4. For a \<^verbatim>\<open>--model\<close> other than the two supported names, the selection binds
  neither a model nor a classifier and raises nothing; the run then stops at line 66, the
  first statement that uses them, with \<^verbatim>\<open>UnboundLocalError\<close>, before any data is read.
  (The only thing that can stop it earlier is the creation of the save directory failing.)
\<close>

theorem unsupported_model_fails_at_first_use:
  assumes "model a \<noteq> ''densenet121''" and "model a \<noteq> ''vgg19''"
  shows "select_model E (model a) [] = Inr ([], None)
       \<and> main_body E fs a =
           and_then (if os_path_exists E fs (save_dir a) then Inr fs
                     else os_makedirs E fs (save_dir a))
             (\<lambda>fs1. Inl (UnboundLocalError ''classifier''))"
  using assms by (simp add: main_body_def select_model_unsupported Let_def)

lemma train_model_zero:
  "train_model E dls 0 c s =
     and_then (if c then module_cuda E (net s) else Inr (module_cpu (net s)))
       (\<lambda>m. Inr (emit [PrintElapsed] (s\<lparr>steps := 0, net := m\<rparr>)))"
  by (simp add: train_model_def Let_def)

lemma select_model_sizes:
  assumes "select_model E name [] = Inr (h, Some l)"
  shows "input_layers l = (if name = ''densenet121'' then 1024 else 25088)
       \<and> output_size l = 102"
  using assms
  by (auto simp: select_model_def and_then_eq_Inr Let_def case_prod_beta split: if_splits)

text \<open>
  Claim C6. With an epoch count of 0 (\<^verbatim>\<open>int(args.epochs)\<close> is 0), once the save directory,
  the model, the three image folders, the device and the optimizer are set up, all that
  is left of \<^verbatim>\<open>main\<close> is the call of \<^verbatim>\<open>torch.save\<close> on \<^verbatim>\<open>checkpoint.pth\<close>: no batch is run
  (the trace of \<^verbatim>\<open>train_model\<close> is the elapsed-time print alone, \<^verbatim>\<open>steps\<close> is 0), the
  parameter store is the one model assembly left, head weights included, and the
  optimizer is the one just constructed. The record that is saved is written out field by
  field: the input size of the chosen architecture, 102 outputs, the raw \<^verbatim>\<open>epochs\<close> and
  \<^verbatim>\<open>learning_rate\<close> arguments, batch size 64, the two transform pipelines, the model with
  the new head, the head, the optimizer, the state dictionary read off the unchanged
  store, and the class-to-index table of the training folder. The run returns exactly
  when that save does.
\<close>

theorem zero_epochs_no_update_checkpoint_written:
  assumes "py_int (epochs a) = Inr 0"
    and "(if os_path_exists E fs (save_dir a) then Inr fs
          else os_makedirs E fs (save_dir a)) = Inr fs1"
    and "select_model E (model a) [] = Inr (h, Some l)"
    and "scan_folder E fs1 (data_path a @ ''/train'') = Inr (ss0, cti0)"
    and "scan_folder E fs1 (data_path a @ ''/valid'') = Inr (ss1, cti1)"
    and "scan_folder E fs1 (data_path a @ ''/test'') = Inr (ss2, cti2)"
    and "cuda a \<longrightarrow> cuda_available E"
    and "adam_check E (lr a) = None"
  shows "(let m = (loc_model l)\<lparr>classifier := loc_classifier l, on_cuda := cuda a\<rparr>;
              opt = \<lparr>param_group = classifier_parameters (loc_classifier l), opt_lr = lr a,
                     opt_state = []\<rparr>;
              ck = \<lparr>ck_input_size = (if model a = ''densenet121'' then 1024 else 25088),
                    ck_output_size = 102,
                    ck_epochs = epochs a,
                    ck_learning_rate = lr a,
                    ck_batch_size = 64,
                    ck_data_transforms = [eval_transforms, train_transforms],
                    ck_model = (m, map (\<lambda>b. h ! b) (parameters m)),
                    ck_classifier = (loc_classifier l,
                       map (\<lambda>b. h ! b) (classifier_parameters (loc_classifier l))),
                    ck_optimizer = opt,
                    ck_state_dict =
                      map (\<lambda>(k, b). (k, p_data (h ! b))) (named_parameters m) @ m_buffers m,
                    ck_class_to_idx = cti0\<rparr>
          in main_body E fs a =
               and_then (torch_save E fs1 ck ''checkpoint.pth'') (\<lambda>fs2.
                 Inr \<lparr>out_fs = fs2,
                      out_save_dir = os_path_join (save_dir a) ''checkpoint.pth'',
                      out_checkpoint = ck,
                      out_state = \<lparr>heap = h, net = m, optim = opt, steps = 0,
                                   running_loss = 0, trace = [PrintElapsed]\<rparr>\<rparr>))"
proof -
  note sz = select_model_sizes [OF assms(3)]
  have dp: "data_parser E fs1 (data_path a) =
      Inr ((\<lparr>dataset = \<lparr>samples = ss0, class_to_idx = cti0, transform_of = train_transforms\<rparr>,
              batch_size = 64, shuffle_on = True\<rparr>,
            \<lparr>dataset = \<lparr>samples = ss1, class_to_idx = cti1, transform_of = eval_transforms\<rparr>,
              batch_size = 64, shuffle_on = False\<rparr>,
            \<lparr>dataset = \<lparr>samples = ss2, class_to_idx = cti2, transform_of = eval_transforms\<rparr>,
              batch_size = 64, shuffle_on = False\<rparr>),
           (\<lparr>samples = ss0, class_to_idx = cti0, transform_of = train_transforms\<rparr>,
            \<lparr>samples = ss1, class_to_idx = cti1, transform_of = eval_transforms\<rparr>,
            \<lparr>samples = ss2, class_to_idx = cti2, transform_of = eval_transforms\<rparr>),
           [eval_transforms, train_transforms])"
    by (simp add: data_parser_def ImageFolder_def assms(4-6))
  show ?thesis
  proof (cases "cuda a")
    case True
    with assms(7) have "cuda_available E" by simp
    with True show ?thesis
      by (simp add: main_body_def Let_def assms(1-3,8) dp sz optim_Adam_def train_model_zero
            module_cuda_def make_checkpoint_def state_dict_def emit_def)
  next
    case False
    then show ?thesis
      by (simp add: main_body_def Let_def assms(1-3,8) dp sz optim_Adam_def train_model_zero
            module_cpu_def make_checkpoint_def state_dict_def emit_def)
  qed
qed

section \<open>Sample runs\<close>

lemma sample_get_arguments: "get_arguments sample_cmdline = Inr sample_args"
  by (simp add: get_arguments_def sample_cmdline_def sample_args_def store_def)

lemma sample_main_body_returns: "\<exists>r. main_body sample_env ([], []) sample_args = Inr r"
  using sample_run_returns by (simp add: main_def sample_get_arguments)

lemma sample_select_model:
  "select_model sample_env ''densenet121'' [] =
     Inr ([\<lparr>p_data = [1], p_grad = None, requires_grad = False\<rparr>,
           \<lparr>p_data = [2], p_grad = None, requires_grad = False\<rparr>,
           \<lparr>p_data = [3], p_grad = None, requires_grad = False\<rparr>,
           \<lparr>p_data = [1024], p_grad = None, requires_grad = True\<rparr>,
           \<lparr>p_data = [550], p_grad = None, requires_grad = True\<rparr>,
           \<lparr>p_data = [550], p_grad = None, requires_grad = True\<rparr>,
           \<lparr>p_data = [200], p_grad = None, requires_grad = True\<rparr>,
           \<lparr>p_data = [200], p_grad = None, requires_grad = True\<rparr>,
           \<lparr>p_data = [102], p_grad = None, requires_grad = True\<rparr>],
          Some \<lparr>input_layers = 1024, output_size = 102,
                loc_model = \<lparr>m_arch = ''densenet121'',
                              m_features = [(''features.conv0.weight'', 0)],
                              classifier = Stock [(''classifier.weight'', 1),
                                                  (''classifier.bias'', 2)],
                              m_buffers = [], training = True, on_cuda = False\<rparr>,
                loc_classifier = Sequential
                  [(''input'', Linear 1024 550 3 4), (''relu1'', ReLU),
                   (''dropout1'', Dropout (1 / 2)), (''linear2'', Linear 550 200 5 6),
                   (''relu2'', ReLU), (''linear3'', Linear 200 102 7 8),
                   (''output'', LogSoftmax 1)]\<rparr>)"
  by (simp add: select_model_def load_pretrained_def new_params_def nn_Linear_def freeze_def
        parameters_def named_parameters_def sample_env_def Let_def upt_rec)

text \<open>
  The sample run with and without \<^verbatim>\<open>--hidden_units 4096\<close>.
\<close>

theorem hidden_units_never_read_witness:
  "main sample_env ([], []) (sample_cmdline\<lparr>c_hidden_units := Some ''4096''\<rparr>)
     = main sample_env ([], []) sample_cmdline
   \<and> (\<exists>r. main sample_env ([], []) sample_cmdline = Inr r)"
  using hidden_units_never_read [where E = sample_env and fs = "([], [])" and c = sample_cmdline
          and u = "Some ''4096''"]
        sample_run_returns
  by simp

text \<open>
  \<^verbatim>\<open>--model vgg13\<close> on the sample data.
\<close>

theorem unsupported_model_fails_at_first_use_witness:
  "model (sample_args\<lparr>model := ''vgg13''\<rparr>) \<noteq> ''densenet121''
   \<and> model (sample_args\<lparr>model := ''vgg13''\<rparr>) \<noteq> ''vgg19''
   \<and> select_model sample_env ''vgg13'' [] = Inr ([], None)
   \<and> main_body sample_env ([], []) (sample_args\<lparr>model := ''vgg13''\<rparr>)
       = Inl (UnboundLocalError ''classifier'')"
proof -
  have 1: "model (sample_args\<lparr>model := ''vgg13''\<rparr>) \<noteq> ''densenet121''"
    and 2: "model (sample_args\<lparr>model := ''vgg13''\<rparr>) \<noteq> ''vgg19''"
    by simp_all
  from unsupported_model_fails_at_first_use [OF 1 2, of sample_env "([], [])"] 1 2
  show ?thesis
    by (simp add: sample_args_def sample_env_def)
qed

text \<open>
  \<^verbatim>\<open>--epochs 0\<close> on the sample data: the nine parameters keep their initial data, and
  \<^verbatim>\<open>checkpoint.pth\<close> holds the record, with the class table of the training folder (two
  classes; the validation folder has one, the test folder three).
\<close>

theorem zero_epochs_no_update_checkpoint_written_witness:
  "py_int (epochs sample_args) = Inr 0
   \<and> (\<exists>r. main_body sample_env ([], []) sample_args = Inr r
         \<and> map p_data (heap (out_state r)) =
             [[1], [2], [3], [1024], [550], [550], [200], [200], [102]]
         \<and> steps (out_state r) = 0
         \<and> trace (out_state r) = [PrintElapsed]
         \<and> out_fs r = ([''out''], [(''checkpoint.pth'', out_checkpoint r)])
         \<and> ck_input_size (out_checkpoint r) = 1024
         \<and> ck_output_size (out_checkpoint r) = 102
         \<and> ck_epochs (out_checkpoint r) = PyStr ''0''
         \<and> ck_learning_rate (out_checkpoint r) = PyFloat (1 / 1000)
         \<and> ck_batch_size (out_checkpoint r) = 64
         \<and> ck_data_transforms (out_checkpoint r) = [eval_transforms, train_transforms]
         \<and> ck_optimizer (out_checkpoint r) =
             \<lparr>param_group = [3, 4, 5, 6, 7, 8], opt_lr = PyFloat (1 / 1000), opt_state = []\<rparr>
         \<and> ck_state_dict (out_checkpoint r) =
             [(''features.conv0.weight'', [1]),
              (''classifier.input.weight'', [1024]), (''classifier.input.bias'', [550]),
              (''classifier.linear2.weight'', [550]), (''classifier.linear2.bias'', [200]),
              (''classifier.linear3.weight'', [200]), (''classifier.linear3.bias'', [102])]
         \<and> ck_class_to_idx (out_checkpoint r) = [(''A'', 0), (''B'', 1)])"
proof -
  have z: "py_int (epochs sample_args) = Inr 0"
    by (simp add: sample_args_def py_int_str_0)
  have d: "(if os_path_exists sample_env ([], []) (save_dir sample_args) then Inr ([], [])
            else os_makedirs sample_env ([], []) (save_dir sample_args)) = Inr ([''out''], [])"
    by (simp add: sample_args_def sample_env_def)
  from sample_select_model obtain h l where
    s: "select_model sample_env (model sample_args) [] = Inr (h, Some l)" and
    h: "h = [\<lparr>p_data = [1], p_grad = None, requires_grad = False\<rparr>,
             \<lparr>p_data = [2], p_grad = None, requires_grad = False\<rparr>,
             \<lparr>p_data = [3], p_grad = None, requires_grad = False\<rparr>,
             \<lparr>p_data = [1024], p_grad = None, requires_grad = True\<rparr>,
             \<lparr>p_data = [550], p_grad = None, requires_grad = True\<rparr>,
             \<lparr>p_data = [550], p_grad = None, requires_grad = True\<rparr>,
             \<lparr>p_data = [200], p_grad = None, requires_grad = True\<rparr>,
             \<lparr>p_data = [200], p_grad = None, requires_grad = True\<rparr>,
             \<lparr>p_data = [102], p_grad = None, requires_grad = True\<rparr>]" and
    l: "l = \<lparr>input_layers = 1024, output_size = 102,
             loc_model = \<lparr>m_arch = ''densenet121'',
                           m_features = [(''features.conv0.weight'', 0)],
                           classifier = Stock [(''classifier.weight'', 1),
                                               (''classifier.bias'', 2)],
                           m_buffers = [], training = True, on_cuda = False\<rparr>,
             loc_classifier = Sequential
               [(''input'', Linear 1024 550 3 4), (''relu1'', ReLU),
                (''dropout1'', Dropout (1 / 2)), (''linear2'', Linear 550 200 5 6),
                (''relu2'', ReLU), (''linear3'', Linear 200 102 7 8),
                (''output'', LogSoftmax 1)]\<rparr>"
    by (simp add: sample_args_def)
  have t0: "scan_folder sample_env ([''out''], []) (data_path sample_args @ ''/train'')
              = Inr ([(''a.jpg'', 0), (''b.jpg'', 1)], [(''A'', 0), (''B'', 1)])"
    and t1: "scan_folder sample_env ([''out''], []) (data_path sample_args @ ''/valid'')
              = Inr ([(''v.jpg'', 0)], [(''A'', 0)])"
    and t2: "scan_folder sample_env ([''out''], []) (data_path sample_args @ ''/test'')
              = Inr ([(''t.jpg'', 2)], [(''A'', 0), (''B'', 1), (''C'', 2)])"
    by (simp_all add: sample_args_def sample_env_def)
  have c: "cuda sample_args \<longrightarrow> cuda_available sample_env"
    by (simp add: sample_args_def)
  have k: "adam_check sample_env (lr sample_args) = None"
    by (simp add: sample_env_def)
  have ts: "torch_save sample_env ([''out''], []) ck ''checkpoint.pth''
              = Inr ([''out''], [(''checkpoint.pth'', ck)])" for ck
    by (simp add: sample_env_def)
  note F = zero_epochs_no_update_checkpoint_written [OF z d s t0 t1 t2 c k,
      unfolded Let_def ts and_then_Inr]
  then obtain r where r: "main_body sample_env ([], []) sample_args = Inr r"
    by blast
  from F r have "heap (out_state r) = h"
    by auto
  then have "map p_data (heap (out_state r)) =
          [[1], [2], [3], [1024], [550], [550], [200], [200], [102]]"
    by (simp add: h)
  moreover from F r have "steps (out_state r) = 0" "trace (out_state r) = [PrintElapsed]"
    "out_fs r = ([''out''], [(''checkpoint.pth'', out_checkpoint r)])"
    by auto
  moreover from F r have "ck_input_size (out_checkpoint r) = 1024"
    "ck_output_size (out_checkpoint r) = 102"
    "ck_batch_size (out_checkpoint r) = 64"
    "ck_data_transforms (out_checkpoint r) = [eval_transforms, train_transforms]"
    "ck_class_to_idx (out_checkpoint r) = [(''A'', 0), (''B'', 1)]"
    by (auto simp: sample_args_def)
  moreover from F r have "ck_epochs (out_checkpoint r) = PyStr ''0''"
    "ck_learning_rate (out_checkpoint r) = PyFloat (1 / 1000)"
    by (auto simp: sample_args_def)
  moreover from F r have "ck_optimizer (out_checkpoint r) =
      \<lparr>param_group = classifier_parameters (loc_classifier l), opt_lr = lr sample_args,
       opt_state = []\<rparr>"
    by auto
  then have "ck_optimizer (out_checkpoint r) =
      \<lparr>param_group = [3, 4, 5, 6, 7, 8], opt_lr = PyFloat (1 / 1000), opt_state = []\<rparr>"
    by (simp add: l classifier_parameters_def sample_args_def)
  moreover from F r have "ck_state_dict (out_checkpoint r) =
      map (\<lambda>(k, b). (k, p_data (h ! b)))
        (named_parameters ((loc_model l)\<lparr>classifier := loc_classifier l,
                                          on_cuda := cuda sample_args\<rparr>))
      @ m_buffers ((loc_model l)\<lparr>classifier := loc_classifier l,
                                  on_cuda := cuda sample_args\<rparr>)"
    by auto
  then have "ck_state_dict (out_checkpoint r) =
             [(''features.conv0.weight'', [1]),
              (''classifier.input.weight'', [1024]), (''classifier.input.bias'', [550]),
              (''classifier.linear2.weight'', [550]), (''classifier.linear2.bias'', [200]),
              (''classifier.linear3.weight'', [200]), (''classifier.linear3.bias'', [102])]"
    by (simp add: h l named_parameters_def)
  ultimately show ?thesis
    using z r by (intro conjI exI [of _ r]) assumption+
qed

lemma sample_step_returns:
  "\<exists>s'. train_step sample_env False ([0], [1]) sample_state = Inr s'"
  by (simp add: sample_train_defs)

lemma sample_epoch_returns:
  "\<exists>s'. train_epoch sample_env sample_loaders False 2 1 sample_mid_state = Inr s'"
  by (simp add: sample_train_defs sample_mid_state_def)

text \<open>
  Two epochs of five batches: no validation inside either epoch, one after the tenth
  step of the run.
\<close>

theorem validation_every_ten_global_steps_witness:
  "\<exists>s'. train_model sample_env sample_loaders 2 False sample_state = Inr s'
     \<and> steps s' = 10
     \<and> filter is_sched (trace s') =
         [OptimStep, OptimStep, OptimStep, OptimStep, OptimStep,
          OptimStep, OptimStep, OptimStep, OptimStep, OptimStep, ModelEval]"
proof -
  obtain s' where s': "train_model sample_env sample_loaders 2 False sample_state = Inr s'"
    using sample_training_returns by blast
  have n: "sum_list (map (\<lambda>e. length (batches sample_env (fst sample_loaders) e)) [0 ..< nat 2])
             = 10"
    by (simp add: batches_def sample_loaders_def sample_env_def chunks.simps upt_rec Let_def)
  have t: "trace sample_state = []"
    by (simp add: sample_state_def)
  have sc: "schedule 0 10 = [OptimStep, OptimStep, OptimStep, OptimStep, OptimStep,
          OptimStep, OptimStep, OptimStep, OptimStep, OptimStep, ModelEval]"
    by (simp add: schedule_def step_events_def upt_rec)
  from validation_every_ten_global_steps [OF s'] n t sc s' show ?thesis
    by auto
qed

text \<open>
  One batch on the sample state: the five calls in order, a loss of 1, a gradient on both
  head parameters and their data moved by the update rule, the frozen parameter at
  address 0 untouched.
\<close>

theorem training_batch_order_witness:
  "param_group (optim sample_state) = classifier_parameters (classifier (net sample_state))
   \<and> (\<exists>s'. train_step sample_env False ([0], [1]) sample_state = Inr s'
         \<and> trace s' = [ZeroGrad, Forward, Criterion 1, Backward, OptimStep]
         \<and> running_loss s' = 1
         \<and> steps s' = 1
         \<and> heap s' = [\<lparr>p_data = [1], p_grad = None, requires_grad = False\<rparr>,
                       \<lparr>p_data = [19 / 10], p_grad = Some [1], requires_grad = True\<rparr>,
                       \<lparr>p_data = [29 / 10], p_grad = Some [1], requires_grad = True\<rparr>])"
proof -
  have g: "param_group (optim sample_state)
             = classifier_parameters (classifier (net sample_state))"
    by (simp add: sample_state_def classifier_parameters_def)
  obtain s' where s': "train_step sample_env False ([0], [1]) sample_state = Inr s'"
    using sample_step_returns by blast
  from training_batch_order [OF s' g] obtain outputs bufs loss h5 where
    f: "net_forward sample_env (net sample_state)
          (map (\<lambda>a. p_data (zero_grad (optim sample_state) (heap sample_state) ! a))
               (parameters (net sample_state))) [0] = Inr (outputs, bufs)" and
    l: "NLLLoss outputs [1] = Inr loss" and
    b: "backward sample_env (net sample_state) [0] [1]
          (zero_grad (optim sample_state) (heap sample_state)) = Inr h5" and
    o: "optimizer_step sample_env (optim sample_state) h5 = Inr (heap s', optim s')" and
    st: "steps s' = steps sample_state + 1" and
    t: "trace s' = trace sample_state @ [ZeroGrad, Forward, Criterion loss, Backward, OptimStep]"
    and r: "running_loss s' = running_loss sample_state + loss"
    by blast
  from f have "outputs = [[0, - 1]]"
    by (auto simp: sample_env_def)
  with l have l1: "loss = 1"
    by (simp add: NLLLoss_def)
  from b have "h5 = [\<lparr>p_data = [1], p_grad = None, requires_grad = False\<rparr>,
                     \<lparr>p_data = [2], p_grad = Some [1], requires_grad = True\<rparr>,
                     \<lparr>p_data = [3], p_grad = Some [1], requires_grad = True\<rparr>]"
    by (simp add: sample_train_defs)
  with o have "heap s' = [\<lparr>p_data = [1], p_grad = None, requires_grad = False\<rparr>,
                          \<lparr>p_data = [19 / 10], p_grad = Some [1], requires_grad = True\<rparr>,
                          \<lparr>p_data = [29 / 10], p_grad = Some [1], requires_grad = True\<rparr>]"
    by (simp add: sample_train_defs)
  with l1 g s' st t r show ?thesis
    by (auto simp: sample_state_def)
qed

text \<open>
  An epoch of five batches entered at step 5 with a stale \<^verbatim>\<open>running_loss\<close> of 7: the same
  result as with 0, and the status line printed at step 10 shows 5 losses of 1 over 10.
\<close>

theorem training_loss_reset_and_divided_by_ten_witness:
  "\<exists>s'. train_epoch sample_env sample_loaders False 2 1 sample_mid_state = Inr s'
     \<and> train_epoch sample_env sample_loaders False 2 1 (sample_mid_state\<lparr>running_loss := 0\<rparr>)
         = Inr s'
     \<and> steps sample_mid_state = 5 \<and> steps s' = 10
     \<and> length (batches sample_env (fst sample_loaders) 1) = 5
     \<and> shown_training_loss ` {line. PrintStats line \<in> set (trace s')} = {5 * 1 / 10}"
proof -
  obtain s' where s': "train_epoch sample_env sample_loaders False 2 1 sample_mid_state = Inr s'"
    using sample_epoch_returns by blast
  from training_loss_reset_and_divided_by_ten [OF s', of 0] have
    a: "train_epoch sample_env sample_loaders False 2 1 (sample_mid_state\<lparr>running_loss := 0\<rparr>)
          = Inr s'"
    by blast
  have b: "train_epoch sample_env sample_loaders False 2 1 (sample_mid_state\<lparr>running_loss := 0\<rparr>)
     = Inr (sample_state\<lparr>steps := 10, running_loss := 0,
              heap := [\<lparr>p_data = [1], p_grad = None, requires_grad = False\<rparr>,
                       \<lparr>p_data = [3 / 2], p_grad = Some [1], requires_grad = True\<rparr>,
                       \<lparr>p_data = [5 / 2], p_grad = Some [1], requires_grad = True\<rparr>],
              optim := \<lparr>param_group = [1, 2], opt_lr = PyFloat (1 / 10),
                 opt_state = [(1, \<lparr>st_step = 1, exp_avg = [1], exp_avg_sq = [1]\<rparr>),
                              (2, \<lparr>st_step = 1, exp_avg = [1], exp_avg_sq = [1]\<rparr>)]\<rparr>,
              trace := [ZeroGrad, Forward, Criterion 1, Backward, OptimStep,
                        ZeroGrad, Forward, Criterion 1, Backward, OptimStep,
                        ZeroGrad, Forward, Criterion 1, Backward, OptimStep,
                        ZeroGrad, Forward, Criterion 1, Backward, OptimStep,
                        ZeroGrad, Forward, Criterion 1, Backward, OptimStep,
                        ModelEval, Forward, Criterion 0, Forward, Criterion 1,
                        PrintStats \<lparr>shown_epoch = 2, shown_epochs = 2,
                          shown_training_loss = 1 / 2, shown_validation_loss = 1 / 2,
                          shown_accuracy = 1 / 2\<rparr>,
                        ModelTrain]\<rparr>)"
    by (simp add: sample_train_defs sample_mid_state_def)
  from a b have "steps s' = 10"
    and "shown_training_loss ` {line. PrintStats line \<in> set (trace s')} = {5 * 1 / 10}"
    by (auto simp: sample_state_def)
  moreover have "length (batches sample_env (fst sample_loaders) 1) = 5"
    by (simp add: batches_def sample_loaders_def sample_env_def chunks.simps Let_def)
  ultimately show ?thesis
    using s' a by (auto simp: sample_mid_state_def)
qed

section \<open>Model assembly and the backbone\<close>

subsection \<open>What model assembly builds\<close>

lemma freeze_length [simp]: "length (freeze as h) = length h"
  by (induction as arbitrary: h) (simp_all add: freeze_def)

lemma freeze_Cons: "freeze (a # as) h = freeze as (h[a := (h ! a)\<lparr>requires_grad := False\<rparr>])"
  by (simp add: freeze_def)

lemma freeze_stays: "\<not> requires_grad (h ! b) \<Longrightarrow> \<not> requires_grad (freeze as h ! b)"
proof (induction as arbitrary: h)
  case Nil
  then show ?case by (simp add: freeze_def)
next
  case (Cons a as)
  have "\<not> requires_grad (h[a := (h ! a)\<lparr>requires_grad := False\<rparr>] ! b)"
    using Cons.prems
    by (cases "a = b"; cases "a < length h") (auto simp: list_update_beyond)
  then show ?case
    by (simp add: freeze_Cons Cons.IH)
qed

lemma freeze_frozen: "a \<in> set as \<Longrightarrow> a < length h \<Longrightarrow> \<not> requires_grad (freeze as h ! a)"
proof (induction as arbitrary: h)
  case Nil
  then show ?case by simp
next
  case (Cons x as)
  show ?case
  proof (cases "x = a")
    case True
    with Cons.prems have "\<not> requires_grad (h[x := (h ! x)\<lparr>requires_grad := False\<rparr>] ! a)"
      by simp
    then show ?thesis
      by (simp add: freeze_Cons freeze_stays)
  next
    case False
    with Cons.prems Cons.IH [of "h[x := (h ! x)\<lparr>requires_grad := False\<rparr>]"] show ?thesis
      by (simp add: freeze_Cons)
  qed
qed

lemma nn_Linear_eq:
  "nn_Linear E i j h =
     (h @ [\<lparr>p_data = fst (linear_init E i j), p_grad = None, requires_grad = True\<rparr>,
           \<lparr>p_data = snd (linear_init E i j), p_grad = None, requires_grad = True\<rparr>],
      Linear i j (length h) (Suc (length h)))"
  by (simp add: nn_Linear_def new_params_def split: prod.splits)

lemma parameters_eq:
  "parameters m = feature_parameters m @ classifier_parameters (classifier m)"
proof -
  have "map (snd \<circ> (\<lambda>(k, a). (f k, a))) ps = map snd ps"
    for f :: "string \<Rightarrow> string" and ps :: "(string \<times> nat) list"
    by (induction ps) auto
  then show ?thesis
    by (simp add: parameters_def named_parameters_def feature_parameters_def
          classifier_parameters_def)
qed

lemma load_pretrained_Inr:
  assumes "load_pretrained E arch [] = Inr (h1, m)"
  shows "parameters m = [0 ..< length h1]"
proof -
  from assms obtain pt where pt: "models_pretrained E arch = Inr pt"
    by (auto simp: load_pretrained_def and_then_eq_Inr)
  with assms have
    h1: "h1 = map (\<lambda>t. \<lparr>p_data = t, p_grad = None, requires_grad = True\<rparr>)
               (map snd (pt_features pt) @ map snd (pt_classifier pt))" and
    m: "m = \<lparr>m_arch = arch,
             m_features = zip (map fst (pt_features pt)) [0 ..< length (pt_features pt)],
             classifier = Stock (zip (map fst (pt_classifier pt))
               [length (pt_features pt) ..< length (pt_features pt) + length (pt_classifier pt)]),
             m_buffers = pt_buffers pt, training = True, on_cuda = False\<rparr>"
    by (simp_all add: load_pretrained_def new_params_def)
  have "parameters m = [0 ..< length (pt_features pt)] @
      [length (pt_features pt) ..< length (pt_features pt) + length (pt_classifier pt)]"
    by (simp add: m parameters_eq feature_parameters_def classifier_parameters_def)
  also have "\<dots> = [0 ..< length (pt_features pt) + length (pt_classifier pt)]"
    by (simp add: upt_add_eq_append [of 0, simplified])
  finally show ?thesis by (simp add: h1)
qed

text \<open>
  The store after assembly: \<open>N\<close> pretrained parameters, all frozen, followed by the six
  fresh parameters of the head.
\<close>

lemma select_model_Some:
  assumes "select_model E name [] = Inr (h, Some l)"
  shows "\<exists>N. parameters (loc_model l) = [0 ..< N]
           \<and> classifier_parameters (loc_classifier l) = [N ..< N + 6]
           \<and> (\<forall>b < N. \<not> requires_grad (h ! b))
           \<and> (name = ''densenet121'' \<or> name = ''vgg19'')"
proof -
  from assms have nm: "name = ''densenet121'' \<or> name = ''vgg19''"
    by (auto simp: select_model_def split: if_splits)
  from assms obtain h1 m ps where
    lp: "load_pretrained E name [] = Inr (h1, m)" and
    h: "h = freeze (parameters m) h1 @ ps" and
    lm: "loc_model l = m" and
    cp: "classifier_parameters (loc_classifier l) = [length h1 ..< length h1 + 6]"
    by (auto simp: select_model_def and_then_eq_Inr nn_Linear_eq Let_def
          classifier_parameters_def upt_rec split: if_splits)
  note pm = load_pretrained_Inr [OF lp]
  have "\<not> requires_grad (h ! b)" if "b < length h1" for b
    using that freeze_frozen [of b "parameters m" h1]
    by (simp add: h pm nth_append)
  with pm lm cp nm show ?thesis by auto
qed

text \<open>
  Claim C3. In every run that returns, the model is one of the two supported backbones;
  when the head is attached, none of the backbone's parameters (its features and its
  stock classifier) requires a gradient; the optimizer holds exactly the parameters of the
  new head, which are disjoint from the backbone's; and after training, however many
  steps it took, every backbone parameter is exactly what it was: data unchanged, no
  gradient, still frozen.
\<close>

theorem backbone_frozen_and_never_updated:
  assumes "main_body E fs a = Inr r"
  shows "\<exists>h l. select_model E (model a) [] = Inr (h, Some l)
      \<and> (model a = ''densenet121'' \<or> model a = ''vgg19'')
      \<and> (\<forall>b \<in> set (parameters (loc_model l)). \<not> requires_grad (h ! b))
      \<and> param_group (optim (out_state r)) = classifier_parameters (loc_classifier l)
      \<and> classifier (net (out_state r)) = loc_classifier l
      \<and> set (classifier_parameters (loc_classifier l)) \<inter> set (parameters (loc_model l)) = {}
      \<and> (\<forall>b \<in> set (parameters (loc_model l)). heap (out_state r) ! b = h ! b)"
proof -
  from main_body_Inr [OF assms] obtain fs1 h l dls
    and ids :: "image_folder \<times> image_folder \<times> image_folder" and dts m1 opt n s where
    sel: "select_model E (model a) [] = Inr (h, Some l)" and
    mv: "(if cuda a then module_cuda E ((loc_model l)\<lparr>classifier := loc_classifier l\<rparr>)
          else Inr ((loc_model l)\<lparr>classifier := loc_classifier l\<rparr>)) = Inr m1" and
    op: "optim_Adam E (classifier_parameters (classifier m1)) (lr a) = Inr opt" and
    tr: "train_model E dls n (cuda a)
           \<lparr>heap = h, net = m1, optim = opt, steps = 0, running_loss = 0, trace = []\<rparr> = Inr s" and
    st: "out_state r = s"
    by blast
  from select_model_Some [OF sel] obtain N where
    pm: "parameters (loc_model l) = [0 ..< N]" and
    cp: "classifier_parameters (loc_classifier l) = [N ..< N + 6]" and
    fz: "\<forall>b < N. \<not> requires_grad (h ! b)" and
    nm: "model a = ''densenet121'' \<or> model a = ''vgg19''"
    by blast
  from mv have cm: "classifier m1 = loc_classifier l"
    by (auto simp: module_cuda_def split: if_splits)
  from op cm have pg: "param_group opt = classifier_parameters (loc_classifier l)"
    by (auto simp: optim_Adam_def split: option.splits)
  let ?s0 = "\<lparr>heap = h, net = m1, optim = opt, steps = 0, running_loss = 0, trace = []\<rparr>"
  have "frozen_in {0 ..< N} ?s0"
    using fz pg cp by (auto simp: frozen_in_def)
  from train_model_kept [OF tr this] have k: "frozen_kept {0 ..< N} ?s0 s" .
  from k pg have "param_group (optim s) = classifier_parameters (loc_classifier l)"
    and "classifier (net s) = loc_classifier l"
    and "\<forall>b\<in>{0 ..< N}. heap s ! b = h ! b"
    by (simp_all add: frozen_kept_def cm)
  with sel nm pm cp fz st show ?thesis
    by auto
qed

lemma py_int_str_1: "py_int (PyStr ''1'') = Inr 1"
  by (simp add: py_int_def py_int_str_def py_strip_def py_isspace_def digits_value_def
        py_isdigit_def int_max_str_digits_def)

lemma sample_one_epoch_returns:
  "\<exists>r. main_body sample_env ([], []) (sample_args\<lparr>epochs := PyStr ''1''\<rparr>) = Inr r
       \<and> steps (out_state r) = 1"
  apply (simp add: sample_args_def main_body_def sample_select_model py_int_str_1)
  apply (simp add: data_parser_def ImageFolder_def optim_Adam_def make_checkpoint_def
        sample_train_defs)
  done

text \<open>
  One epoch on the sample data: the three pretrained parameters are untouched, the
  optimizer holds the six head parameters.
\<close>

theorem backbone_frozen_and_never_updated_witness:
  "\<exists>r. main_body sample_env ([], []) (sample_args\<lparr>epochs := PyStr ''1''\<rparr>) = Inr r
     \<and> steps (out_state r) = 1
     \<and> param_group (optim (out_state r)) = [3, 4, 5, 6, 7, 8]
     \<and> map (\<lambda>b. heap (out_state r) ! b) [0, 1, 2] =
          [\<lparr>p_data = [1], p_grad = None, requires_grad = False\<rparr>,
           \<lparr>p_data = [2], p_grad = None, requires_grad = False\<rparr>,
           \<lparr>p_data = [3], p_grad = None, requires_grad = False\<rparr>]"
proof -
  obtain r where r: "main_body sample_env ([], []) (sample_args\<lparr>epochs := PyStr ''1''\<rparr>) = Inr r"
    and s1: "steps (out_state r) = 1"
    using sample_one_epoch_returns by blast
  from backbone_frozen_and_never_updated [OF r] obtain h l where
    sel: "select_model sample_env (model (sample_args\<lparr>epochs := PyStr ''1''\<rparr>)) [] = Inr (h, Some l)"
    and pg: "param_group (optim (out_state r)) = classifier_parameters (loc_classifier l)"
    and kept: "\<forall>b \<in> set (parameters (loc_model l)). heap (out_state r) ! b = h ! b"
    by blast
  from sel have hl: "h ! 0 = \<lparr>p_data = [1], p_grad = None, requires_grad = False\<rparr>"
      "h ! 1 = \<lparr>p_data = [2], p_grad = None, requires_grad = False\<rparr>"
      "h ! 2 = \<lparr>p_data = [3], p_grad = None, requires_grad = False\<rparr>"
      "parameters (loc_model l) = [0, 1, 2]"
      "classifier_parameters (loc_classifier l) = [3, 4, 5, 6, 7, 8]"
    by (auto simp: sample_args_def sample_select_model parameters_eq feature_parameters_def
          classifier_parameters_def)
  with r s1 pg kept show ?thesis
    by auto
qed

section \<open>The accuracy metric\<close>

lemma NLLLoss_Inr_length: "NLLLoss outp labels = Inr v \<Longrightarrow> length outp = length labels"
  by (simp add: NLLLoss_def split: if_splits)

lemma count_true_indicator:
  "length rows = length ys \<Longrightarrow>
   real (length (filter (\<lambda>b. b) (map2 (=) ys (map f rows))))
     = sum_list (map (\<lambda>(row, y). if y = f row then 1 else 0) (zip rows ys))"
  by (induction rows ys rule: list_induct2) auto

lemma batch_accuracy_spec:
  assumes "length outp = length labels"
  shows "batch_accuracy outp labels = spec_batch_mean outp labels"
proof -
  let ?f = "\<lambda>row. argmax (map exp row)"
  have p: "predictions outp = map ?f outp"
    by (simp add: predictions_def)
  have "batch_accuracy outp labels
          = real (length (filter (\<lambda>b. b) (map2 (=) labels (map ?f outp))))
              / real (length (map2 (=) labels (map ?f outp)))"
    unfolding batch_accuracy_def mean_bool_def p ..
  also have "length (map2 (=) labels (map ?f outp)) = length labels"
    using assms by simp
  also have "real (length (filter (\<lambda>b. b) (map2 (=) labels (map ?f outp))))
          = sum_list (map (\<lambda>(row, y). if y = ?f row then 1 else 0) (zip outp labels))"
    using assms by (rule count_true_indicator)
  finally show ?thesis
    unfolding spec_batch_mean_def .
qed

lemma indicator_sum_bounds:
  "0 \<le> sum_list (map (\<lambda>(row, y). if y = f row then 1 else (0::real)) zs)
   \<and> sum_list (map (\<lambda>(row, y). if y = f row then 1 else (0::real)) zs) \<le> real (length zs)"
  by (induction zs) auto

lemma spec_batch_mean_bounds: "0 \<le> spec_batch_mean outp labels \<and> spec_batch_mean outp labels \<le> 1"
proof -
  let ?t = "sum_list (map (\<lambda>(row, y). if y = argmax (map exp row) then 1 else (0::real))
              (zip outp labels))"
  from indicator_sum_bounds [of "\<lambda>row. argmax (map exp row)" "zip outp labels"]
  have 0: "0 \<le> ?t" and "?t \<le> real (length (zip outp labels))"
    by simp_all
  moreover have "real (length (zip outp labels)) \<le> real (length labels)"
    by simp
  ultimately have 1: "?t \<le> real (length labels)"
    by linarith
  show ?thesis
  proof (cases "labels = []")
    case True
    then show ?thesis by (simp add: spec_batch_mean_def)
  next
    case False
    then have "0 < real (length labels)" by simp
    with 0 1 show ?thesis
      by (simp add: spec_batch_mean_def divide_le_eq_1)
  qed
qed

lemma batch_means_sum_bounds:
  "0 \<le> sum_list (map (\<lambda>(outp, labels). spec_batch_mean outp labels) obs)
   \<and> sum_list (map (\<lambda>(outp, labels). spec_batch_mean outp labels) obs) \<le> real (length obs)"
proof (induction obs)
  case Nil
  then show ?case by simp
next
  case (Cons ob obs)
  obtain outp labels where ob: "ob = (outp, labels)" by (cases ob)
  from spec_batch_mean_bounds [of outp labels] Cons.IH show ?case
    by (simp add: ob)
qed

lemma per_batch_accuracy_bounds: "0 \<le> per_batch_accuracy obs \<and> per_batch_accuracy obs \<le> 1"
proof (cases "obs = []")
  case True
  then show ?thesis by (simp add: per_batch_accuracy_def)
next
  case False
  then have "0 < real (length obs)" by simp
  with batch_means_sum_bounds [of obs] show ?thesis
    by (simp add: per_batch_accuracy_def divide_le_eq_1)
qed

lemma validate_fold_accuracy:
  assumes "try_fold (validate_batch E c) bs (s, acc, vl) = Inr (s', acc', vl')"
  shows "length (observed E c bs (s, acc, vl)) = length bs
       \<and> acc' = acc + sum_list (map (\<lambda>(outp, labels). spec_batch_mean outp labels)
                                   (observed E c bs (s, acc, vl)))"
  using assms
proof (induction bs arbitrary: s acc vl)
  case Nil
  then show ?case by simp
next
  case (Cons b bs)
  obtain images labels where b: "b = (images, labels)" by (cases b)
  from Cons.prems obtain s1 acc1 vl1 where
    1: "validate_batch E c (images, labels) (s, acc, vl) = Inr (s1, acc1, vl1)" and
    2: "try_fold (validate_batch E c) bs (s1, acc1, vl1) = Inr (s', acc', vl')"
    by (auto simp: and_then_eq_Inr b)
  from validate_batch_Inr [OF 1] obtain outp bufs v where
    f: "forward E images s = Inr (outp, emit [Forward] (s\<lparr>net := (net s)\<lparr>m_buffers := bufs\<rparr>\<rparr>))"
    and l: "NLLLoss outp labels = Inr v"
    and a: "acc1 = acc + batch_accuracy outp labels"
    by blast
  have a': "acc1 = acc + spec_batch_mean outp labels"
    using a batch_accuracy_spec [OF NLLLoss_Inr_length [OF l]] by simp
  have o: "observed E c (b # bs) (s, acc, vl) = (outp, labels) # observed E c bs (s1, acc1, vl1)"
    by (simp add: b f 1)
  from Cons.IH [OF 2] show ?case
    unfolding o by (simp add: a')
qed

text \<open>
  Claim C7. A validation pass over a loader built as \<^verbatim>\<open>data_parser\<close> builds the validation
  loader (no shuffling, a positive batch size; see \<open>data_parser_valid_loader\<close>) that
  reaches its print has a non-empty loader, and prints as accuracy the sum over the batches
  of the per-batch mean of (label = arg-max of the exponentiated output), divided by the
  number of batches. That value lies between 0 and 1. (Arithmetic is exact here; the
  rounding of floats is not modelled.)
\<close>

theorem validation_accuracy_is_mean_of_batch_means:
  assumes "validation E vlo c e n s = Inr s'"
    and "\<not> shuffle_on vlo" and "0 < batch_size vlo"
  shows "\<exists>pre line.
           trace s' = pre @ [PrintStats line, ModelTrain]
         \<and> loader_len vlo \<noteq> 0
         \<and> length (observed E c (batches E vlo (steps s)) (validation_start s)) = loader_len vlo
         \<and> shown_accuracy line
             = per_batch_accuracy (observed E c (batches E vlo (steps s)) (validation_start s))
         \<and> 0 \<le> shown_accuracy line \<and> shown_accuracy line \<le> 1"
proof -
  let ?obs = "observed E c (batches E vlo (steps s)) (validation_start s)"
  from validation_Inr [OF assms(1)] obtain s2 acc vl evs where
    f: "try_fold (validate_batch E c) (batches E vlo (steps s))
          (emit [ModelEval] (s\<lparr>net := (net s)\<lparr>training := False\<rparr>\<rparr>), 0, 0) = Inr (s2, acc, vl)"
    and n0: "loader_len vlo \<noteq> 0"
    and t: "trace s' = trace s @ [ModelEval] @ evs @
         [PrintStats \<lparr>shown_epoch = e + 1, shown_epochs = n,
                      shown_training_loss = running_loss s / real print_every,
                      shown_validation_loss = vl / real (loader_len vlo),
                      shown_accuracy = acc / real (loader_len vlo)\<rparr>, ModelTrain]"
    by blast
  from validate_fold_accuracy [OF f] have
    len: "length ?obs = length (batches E vlo (steps s))" and
    acc: "acc = sum_list (map (\<lambda>(outp, labels). spec_batch_mean outp labels) ?obs)"
    by (simp_all add: validation_start_def)
  from len have len': "length ?obs = loader_len vlo"
    using length_batches [OF assms(2,3)] by simp
  have pa: "acc / real (loader_len vlo) = per_batch_accuracy ?obs"
    by (simp add: per_batch_accuracy_def acc [symmetric] len')
  let ?line = "\<lparr>shown_epoch = e + 1, shown_epochs = n,
                      shown_training_loss = running_loss s / real print_every,
                      shown_validation_loss = vl / real (loader_len vlo),
                      shown_accuracy = acc / real (loader_len vlo)\<rparr>"
  have "trace s' = (trace s @ [ModelEval] @ evs) @ [PrintStats ?line, ModelTrain]"
    by (simp add: t)
  moreover have "shown_accuracy ?line = per_batch_accuracy ?obs"
    using pa by simp
  moreover have "0 \<le> shown_accuracy ?line \<and> shown_accuracy ?line \<le> 1"
    using pa per_batch_accuracy_bounds [of ?obs] by simp
  ultimately show ?thesis
    using n0 len' by blast
qed

lemma data_parser_valid_loader:
  assumes "data_parser E fs path = Inr (dls, ids, dts)"
  shows "\<not> shuffle_on (fst (snd dls)) \<and> batch_size (fst (snd dls)) = 64
       \<and> shuffle_on (fst dls) \<and> batch_size (fst dls) = 64
       \<and> dts = [eval_transforms, train_transforms]"
  using assms by (auto simp: data_parser_def Let_def and_then_eq_Inr)

lemma argmax_exp: "argmax (map exp row) = argmax row"
  by (cases row) (simp_all add: argmax_def argmax_aux_exp)

lemma sample_validation_returns:
  "\<exists>s'. validation sample_env (fst (snd sample_loaders)) False 1 2 sample_state = Inr s'"
  by (simp add: sample_train_defs)

lemma sample_observed:
  "observed sample_env False (batches sample_env (fst (snd sample_loaders)) (steps sample_state))
     (validation_start sample_state)
   = [([[0, - 1], [0, - 1]], [0, 0]), ([[0, - 1]], [1])]"
  by (simp add: validation_start_def sample_train_defs)

text \<open>
  Batches of two samples (both right) and one sample (wrong): the printed accuracy is the
  mean of the batch means, 1/2, where two of the three samples are right.
\<close>

theorem validation_accuracy_is_mean_of_batch_means_witness:
  "\<not> shuffle_on (fst (snd sample_loaders)) \<and> 0 < batch_size (fst (snd sample_loaders))
   \<and> (\<exists>s' pre line.
         validation sample_env (fst (snd sample_loaders)) False 1 2 sample_state = Inr s'
       \<and> trace s' = pre @ [PrintStats line, ModelTrain]
       \<and> loader_len (fst (snd sample_loaders)) = 2
       \<and> shown_accuracy line = 1 / 2
       \<and> per_sample_accuracy
            (observed sample_env False
               (batches sample_env (fst (snd sample_loaders)) (steps sample_state))
               (validation_start sample_state)) = 2 / 3)"
proof -
  have a: "\<not> shuffle_on (fst (snd sample_loaders))"
    and b: "0 < batch_size (fst (snd sample_loaders))"
    and c: "loader_len (fst (snd sample_loaders)) = 2"
    by (simp_all add: sample_loaders_def loader_len_def)
  obtain s' where
    s': "validation sample_env (fst (snd sample_loaders)) False 1 2 sample_state = Inr s'"
    using sample_validation_returns by blast
  from validation_accuracy_is_mean_of_batch_means [OF s' a b] obtain pre line where
    t: "trace s' = pre @ [PrintStats line, ModelTrain]" and
    v: "shown_accuracy line = per_batch_accuracy
          (observed sample_env False
             (batches sample_env (fst (snd sample_loaders)) (steps sample_state))
             (validation_start sample_state))"
    by blast
  have "shown_accuracy line = 1 / 2"
    by (simp add: v sample_observed per_batch_accuracy_def spec_batch_mean_def argmax_exp
          argmax_def)
  moreover have "per_sample_accuracy
            (observed sample_env False
               (batches sample_env (fst (snd sample_loaders)) (steps sample_state))
               (validation_start sample_state)) = 2 / 3"
    by (simp add: sample_observed per_sample_accuracy_def argmax_exp argmax_def)
  ultimately show ?thesis
    using a b c s' t by blast
qed

section \<open>Raw argument values\<close>

lemma py_int_str_examples:
  "py_int (PyStr [CHR 0x1C, CHR ''5'']) = Inl (ValueError [CHR 0x1C, CHR ''5''])"
  "py_int (PyStr [CHR 0xA0, CHR ''5'', CHR 0x0A]) = Inr 5"
  "py_int (PyStr '' +1_0 '') = Inr 10"
  "py_int (PyStr ''-007'') = Inr (- 7)"
  "py_int (PyStr ''1__0'') = Inl (ValueError ''1__0'')"
  "py_int (PyStr ''0.5'') = Inl (ValueError ''0.5'')"
  "py_int (PyStr '''') = Inl (ValueError '''')"
  by (simp_all add: py_int_def py_int_str_def py_strip_def py_isspace_def digits_value_def
        py_isdigit_def int_max_str_digits_def)

text \<open>
  Claim C10. \<^verbatim>\<open>get_arguments\<close> stores what followed \<^verbatim>\<open>--learning_rate\<close>, \<^verbatim>\<open>--hidden_units\<close>
  and \<^verbatim>\<open>--epochs\<close> as the string it is (the numeric defaults apply only when the flag is
  absent). Once the save directory, the model, the data and the device are set up, the
  rest of \<^verbatim>\<open>main\<close> is this: the optimizer's constructor is given the learning rate as
  parsed, and if it refuses the value the run ends with its exception; otherwise the
  optimizer holds that value, \<^verbatim>\<open>int()\<close> is applied to the parsed epoch count (its
  \<^verbatim>\<open>ValueError\<close> ends the run), \<^verbatim>\<open>train_model\<close> is called with the integer, and the
  checkpoint is built from the arguments as parsed. Whenever the run returns, the
  optimizer still holds the parsed learning rate, the checkpoint's \<^verbatim>\<open>learning_rate\<close> and
  \<^verbatim>\<open>epochs\<close> fields are the parsed values, and as many epochs were trained as \<^verbatim>\<open>int()\<close>
  gave.
\<close>

theorem flag_values_stay_raw_strings:
  assumes "get_arguments c = Inr a"
    and "(if os_path_exists E fs (save_dir a) then Inr fs
          else os_makedirs E fs (save_dir a)) = Inr fs1"
    and "select_model E (model a) [] = Inr (h, Some l)"
    and "data_parser E fs1 (data_path a) = Inr (dls, ids, dts)"
    and "(if cuda a then module_cuda E ((loc_model l)\<lparr>classifier := loc_classifier l\<rparr>)
          else Inr ((loc_model l)\<lparr>classifier := loc_classifier l\<rparr>)) = Inr m1"
  shows "lr a = (case c_learning_rate c of None \<Rightarrow> PyFloat (1 / 1000) | Some v \<Rightarrow> PyStr v)
       \<and> hidden_units a = (case c_hidden_units c of None \<Rightarrow> PyInt 512 | Some v \<Rightarrow> PyStr v)
       \<and> epochs a = (case c_epochs c of None \<Rightarrow> PyInt 5 | Some v \<Rightarrow> PyStr v)
       \<and> main_body E fs a =
           (case adam_check E (lr a) of
              Some e \<Rightarrow> Inl e
            | None \<Rightarrow>
                and_then (py_int (epochs a)) (\<lambda>n.
                and_then (train_model E dls n (cuda a)
                            \<lparr>heap = h, net = m1,
                             optim = \<lparr>param_group = classifier_parameters (loc_classifier l),
                                      opt_lr = lr a, opt_state = []\<rparr>,
                             steps = 0, running_loss = 0, trace = []\<rparr>) (\<lambda>s.
                and_then (torch_save E fs1 (make_checkpoint a l dts (fst ids) s)
                            ''checkpoint.pth'') (\<lambda>fs2.
                  Inr \<lparr>out_fs = fs2,
                       out_save_dir = os_path_join (save_dir a) ''checkpoint.pth'',
                       out_checkpoint = make_checkpoint a l dts (fst ids) s,
                       out_state = s\<rparr>))))
       \<and> (\<forall>r. main_body E fs a = Inr r \<longrightarrow>
             opt_lr (optim (out_state r)) = lr a
           \<and> ck_learning_rate (out_checkpoint r) = lr a
           \<and> ck_epochs (out_checkpoint r) = epochs a
           \<and> (\<exists>n. py_int (epochs a) = Inr n
                 \<and> steps (out_state r)
                     = sum_list (map (\<lambda>e. length (batches E (fst dls) e)) [0 ..< nat n])))"
proof -
  from assms(1) have
    g: "lr a = (case c_learning_rate c of None \<Rightarrow> PyFloat (1 / 1000) | Some v \<Rightarrow> PyStr v)"
       "hidden_units a = (case c_hidden_units c of None \<Rightarrow> PyInt 512 | Some v \<Rightarrow> PyStr v)"
       "epochs a = (case c_epochs c of None \<Rightarrow> PyInt 5 | Some v \<Rightarrow> PyStr v)"
    by (auto simp: get_arguments_def store_def split: option.splits)
  from assms(5) have cm: "classifier m1 = loc_classifier l"
    by (auto simp: module_cuda_def split: if_splits)
  have e: "main_body E fs a =
           (case adam_check E (lr a) of
              Some e \<Rightarrow> Inl e
            | None \<Rightarrow>
                and_then (py_int (epochs a)) (\<lambda>n.
                and_then (train_model E dls n (cuda a)
                            \<lparr>heap = h, net = m1,
                             optim = \<lparr>param_group = classifier_parameters (loc_classifier l),
                                      opt_lr = lr a, opt_state = []\<rparr>,
                             steps = 0, running_loss = 0, trace = []\<rparr>) (\<lambda>s.
                and_then (torch_save E fs1 (make_checkpoint a l dts (fst ids) s)
                            ''checkpoint.pth'') (\<lambda>fs2.
                  Inr \<lparr>out_fs = fs2,
                       out_save_dir = os_path_join (save_dir a) ''checkpoint.pth'',
                       out_checkpoint = make_checkpoint a l dts (fst ids) s,
                       out_state = s\<rparr>))))"
    by (simp add: main_body_def Let_def assms(2-5) cm optim_Adam_def split: option.splits)
  have d: "opt_lr (optim (out_state r)) = lr a
           \<and> ck_learning_rate (out_checkpoint r) = lr a
           \<and> ck_epochs (out_checkpoint r) = epochs a
           \<and> (\<exists>n. py_int (epochs a) = Inr n
                 \<and> steps (out_state r)
                     = sum_list (map (\<lambda>e. length (batches E (fst dls) e)) [0 ..< nat n]))"
    if r: "main_body E fs a = Inr r" for r
  proof -
    let ?opt = "\<lparr>param_group = classifier_parameters (loc_classifier l),
                 opt_lr = lr a, opt_state = []\<rparr>"
    let ?s0 = "\<lparr>heap = h, net = m1, optim = ?opt, steps = 0, running_loss = 0, trace = []\<rparr>"
    from r [unfolded e] obtain n s where
      n: "py_int (epochs a) = Inr n" and
      tr: "train_model E dls n (cuda a) ?s0 = Inr s" and
      ck: "out_checkpoint r = make_checkpoint a l dts (fst ids) s" and
      st: "out_state r = s"
      by (auto simp: and_then_eq_Inr split: option.splits)
    have "frozen_in {} ?s0"
      by (simp add: frozen_in_def)
    from train_model_kept [OF tr this] have ol: "opt_lr (optim s) = lr a"
      by (simp add: frozen_kept_def)
    from train_model_Inr [OF tr] obtain m s1 where
      f: "try_fold (train_epoch E dls (cuda a) n) [0 ..< nat n] (?s0\<lparr>steps := 0, net := m\<rparr>)
            = Inr s1"
      and s: "s = emit [PrintElapsed] s1"
      by blast
    from train_epochs_Inr [OF f] have
      "steps s = sum_list (map (\<lambda>e. length (batches E (fst dls) e)) [0 ..< nat n])"
      by (simp add: s)
    with n ol ck st show ?thesis
      by (simp add: make_checkpoint_def)
  qed
  from d have "\<forall>r. main_body E fs a = Inr r \<longrightarrow>
             opt_lr (optim (out_state r)) = lr a
           \<and> ck_learning_rate (out_checkpoint r) = lr a
           \<and> ck_epochs (out_checkpoint r) = epochs a
           \<and> (\<exists>n. py_int (epochs a) = Inr n
                 \<and> steps (out_state r)
                     = sum_list (map (\<lambda>e. length (batches E (fst dls) e)) [0 ..< nat n]))"
    by blast
  with g e show ?thesis
    by (intro conjI)
qed

text \<open>
  With \<^verbatim>\<open>--learning_rate 0.01\<close> and no epoch of training the run returns, and the
  optimizer and the checkpoint hold the string \<^verbatim>\<open>'0.01'\<close>. With \<^verbatim>\<open>--epochs 1\<close> as well,
  the string reaches the update rule of the sample environment, which needs a number:
  \<^verbatim>\<open>TypeError\<close>. With \<^verbatim>\<open>--epochs 1.5\<close> the conversion at the call fails: \<^verbatim>\<open>ValueError\<close>.
\<close>

theorem flag_values_stay_raw_strings_witness:
  "get_arguments (sample_cmdline\<lparr>c_learning_rate := Some ''0.01''\<rparr>)
     = Inr (sample_args\<lparr>lr := PyStr ''0.01''\<rparr>)
   \<and> (\<exists>r. main_body sample_env ([], []) (sample_args\<lparr>lr := PyStr ''0.01''\<rparr>) = Inr r
         \<and> opt_lr (optim (out_state r)) = PyStr ''0.01''
         \<and> ck_learning_rate (out_checkpoint r) = PyStr ''0.01''
         \<and> ck_epochs (out_checkpoint r) = PyStr ''0''
         \<and> steps (out_state r) = 0)
   \<and> get_arguments (sample_cmdline\<lparr>c_learning_rate := Some ''0.01'', c_epochs := Some ''1''\<rparr>)
       = Inr (sample_args\<lparr>lr := PyStr ''0.01'', epochs := PyStr ''1''\<rparr>)
   \<and> main_body sample_env ([], []) (sample_args\<lparr>lr := PyStr ''0.01'', epochs := PyStr ''1''\<rparr>)
       = Inl (LibraryError ''TypeError'')
   \<and> get_arguments (sample_cmdline\<lparr>c_epochs := Some ''1.5''\<rparr>)
       = Inr (sample_args\<lparr>epochs := PyStr ''1.5''\<rparr>)
   \<and> main_body sample_env ([], []) (sample_args\<lparr>epochs := PyStr ''1.5''\<rparr>)
       = Inl (ValueError ''1.5'')"
proof -
  let ?h = "[\<lparr>p_data = [1], p_grad = None, requires_grad = False\<rparr>,
             \<lparr>p_data = [2], p_grad = None, requires_grad = False\<rparr>,
             \<lparr>p_data = [3], p_grad = None, requires_grad = False\<rparr>,
             \<lparr>p_data = [1024], p_grad = None, requires_grad = True\<rparr>,
             \<lparr>p_data = [550], p_grad = None, requires_grad = True\<rparr>,
             \<lparr>p_data = [550], p_grad = None, requires_grad = True\<rparr>,
             \<lparr>p_data = [200], p_grad = None, requires_grad = True\<rparr>,
             \<lparr>p_data = [200], p_grad = None, requires_grad = True\<rparr>,
             \<lparr>p_data = [102], p_grad = None, requires_grad = True\<rparr>]"
  let ?l = "\<lparr>input_layers = 1024, output_size = 102,
             loc_model = \<lparr>m_arch = ''densenet121'',
                           m_features = [(''features.conv0.weight'', 0)],
                           classifier = Stock [(''classifier.weight'', 1),
                                               (''classifier.bias'', 2)],
                           m_buffers = [], training = True, on_cuda = False\<rparr>,
             loc_classifier = Sequential
               [(''input'', Linear 1024 550 3 4), (''relu1'', ReLU),
                (''dropout1'', Dropout (1 / 2)), (''linear2'', Linear 550 200 5 6),
                (''relu2'', ReLU), (''linear3'', Linear 200 102 7 8),
                (''output'', LogSoftmax 1)]\<rparr>"
  let ?m = "(loc_model ?l)\<lparr>classifier := loc_classifier ?l\<rparr>"
  let ?d0 = "\<lparr>samples = [(''a.jpg'', 0), (''b.jpg'', 1)],
              class_to_idx = [(''A'', 0), (''B'', 1)], transform_of = train_transforms\<rparr>"
  let ?d1 = "\<lparr>samples = [(''v.jpg'', 0)],
              class_to_idx = [(''A'', 0)], transform_of = eval_transforms\<rparr>"
  let ?d2 = "\<lparr>samples = [(''t.jpg'', 2)],
              class_to_idx = [(''A'', 0), (''B'', 1), (''C'', 2)],
              transform_of = eval_transforms\<rparr>"
  let ?dls = "(\<lparr>dataset = ?d0, batch_size = 64, shuffle_on = True\<rparr>,
               \<lparr>dataset = ?d1, batch_size = 64, shuffle_on = False\<rparr>,
               \<lparr>dataset = ?d2, batch_size = 64, shuffle_on = False\<rparr>)"
  let ?a1 = "sample_args\<lparr>lr := PyStr ''0.01''\<rparr>"
  let ?a2 = "sample_args\<lparr>lr := PyStr ''0.01'', epochs := PyStr ''1''\<rparr>"
  let ?a3 = "sample_args\<lparr>epochs := PyStr ''1.5''\<rparr>"
  have d: "(if os_path_exists sample_env ([], []) (save_dir a) then Inr ([], [])
            else os_makedirs sample_env ([], []) (save_dir a)) = Inr ([''out''], [])"
    if "save_dir a = ''out''" for a :: args
    using that by (simp add: sample_env_def)
  have s: "select_model sample_env (model a) [] = Inr (?h, Some ?l)"
    if "model a = ''densenet121''" for a :: args
    using that sample_select_model by simp
  have p: "data_parser sample_env ([''out''], []) (data_path a)
             = Inr (?dls, (?d0, ?d1, ?d2), [eval_transforms, train_transforms])"
    if "data_path a = ''flowers''" for a :: args
    using that by (simp add: data_parser_def ImageFolder_def sample_env_def)
  have v: "(if cuda a then module_cuda sample_env ?m else Inr ?m) = Inr ?m"
    if "\<not> cuda a" for a :: args
    using that by simp
  have g1: "get_arguments (sample_cmdline\<lparr>c_learning_rate := Some ''0.01''\<rparr>) = Inr ?a1"
    and g2: "get_arguments (sample_cmdline\<lparr>c_learning_rate := Some ''0.01'',
               c_epochs := Some ''1''\<rparr>) = Inr ?a2"
    and g3: "get_arguments (sample_cmdline\<lparr>c_epochs := Some ''1.5''\<rparr>) = Inr ?a3"
    by (simp_all add: get_arguments_def sample_cmdline_def sample_args_def store_def)
  have q1: "save_dir ?a1 = ''out''" "model ?a1 = ''densenet121''"
    "data_path ?a1 = ''flowers''" "\<not> cuda ?a1"
    and q2: "save_dir ?a2 = ''out''" "model ?a2 = ''densenet121''"
    "data_path ?a2 = ''flowers''" "\<not> cuda ?a2"
    and q3: "save_dir ?a3 = ''out''" "model ?a3 = ''densenet121''"
    "data_path ?a3 = ''flowers''" "\<not> cuda ?a3"
    by (simp_all add: sample_args_def)
  note f1 = flag_values_stay_raw_strings
    [OF g1 d [OF q1(1)] s [OF q1(2)] p [OF q1(3)] v [OF q1(4)]]
  note f2 = flag_values_stay_raw_strings
    [OF g2 d [OF q2(1)] s [OF q2(2)] p [OF q2(3)] v [OF q2(4)]]
  note f3 = flag_values_stay_raw_strings
    [OF g3 d [OF q3(1)] s [OF q3(2)] p [OF q3(3)] v [OF q3(4)]]
  note e1 = f1 [THEN conjunct2, THEN conjunct2, THEN conjunct2, THEN conjunct1]
  note r1 = f1 [THEN conjunct2, THEN conjunct2, THEN conjunct2, THEN conjunct2, rule_format]
  note e2 = f2 [THEN conjunct2, THEN conjunct2, THEN conjunct2, THEN conjunct1]
  note e3 = f3 [THEN conjunct2, THEN conjunct2, THEN conjunct2, THEN conjunct1]
  have k: "adam_check sample_env x = None" for x
    by (simp add: sample_env_def)
  have ts: "torch_save sample_env ([''out''], []) ck ''checkpoint.pth''
              = Inr ([''out''], [(''checkpoint.pth'', ck)])" for ck
    by (simp add: sample_env_def)
  have "\<exists>r. main_body sample_env ([], []) ?a1 = Inr r \<and> steps (out_state r) = 0"
    unfolding e1 by (simp add: k sample_args_def py_int_str_0 ts train_model_zero emit_def)
  then obtain r where r: "main_body sample_env ([], []) ?a1 = Inr r"
    and st: "steps (out_state r) = 0"
    by blast
  from r1 [OF r] have "opt_lr (optim (out_state r)) = PyStr ''0.01''"
    "ck_learning_rate (out_checkpoint r) = PyStr ''0.01''"
    "ck_epochs (out_checkpoint r) = PyStr ''0''"
    by (simp_all add: sample_args_def)
  with r st have c1: "\<exists>r. main_body sample_env ([], []) ?a1 = Inr r
         \<and> opt_lr (optim (out_state r)) = PyStr ''0.01''
         \<and> ck_learning_rate (out_checkpoint r) = PyStr ''0.01''
         \<and> ck_epochs (out_checkpoint r) = PyStr ''0''
         \<and> steps (out_state r) = 0"
    by (intro exI [of _ r] conjI)
  have c2: "main_body sample_env ([], []) ?a2 = Inl (LibraryError ''TypeError'')"
    unfolding e2 by (simp add: k sample_args_def py_int_str_1) (simp add: sample_train_defs)
  have z3: "py_int (PyStr ''1.5'') = Inl (ValueError ''1.5'')"
    by (simp add: py_int_def py_int_str_def py_strip_def py_isspace_def py_isdigit_def)
  have c3: "main_body sample_env ([], []) ?a3 = Inl (ValueError ''1.5'')"
    unfolding e3 by (simp add: k sample_args_def z3)
  from g1 c1 g2 c2 g3 c3 show ?thesis
    by (intro conjI)
qed

end
